theory Spec2Isabelle
  imports Complex_Main "HOL-Library.Sublist"
begin

section \<open>Data model (types/scheduler.ts, types/headerTypes.ts)\<close>

text \<open>
  The TypeScript interfaces become records. A JavaScript \<^verbatim>\<open>number\<close> that the
  validation schema restricts to an integer (load, students, maxLoad, preps) is an
  \<^typ>\<open>int\<close>; an optional field is an \<^typ>\<open>'a option\<close>. Strings are character lists;
  every identifier the scheduler builds is ASCII. Where two interfaces share a field
  name the later record carries a suffix (\<open>_T\<close> teacher, \<open>_G\<close> course group,
  \<open>_M\<close> metrics, \<open>_CT\<close> course totals, \<open>_S\<close> summary).
\<close>

datatype Division = MS | HS

record Assignment =
  courseId :: string
  courseName :: string
  courseGroup :: string
  load :: int
  isCPT :: bool
  students :: "int option"
  color :: "string option"

record Teacher =
  id_T :: string
  name_T :: string
  division :: Division
  otherRole :: "string option"
  maxLoad :: int
  preps :: int
  students_T :: int
  assignments :: "Assignment list"
  totalLoad :: "int option"
  availablePeriods :: "int option"

record CourseColumnMetadata =
  columnId :: string
  totalSections :: int
  periodsPerCycle :: int
  remainingPeriod :: int
  studentsPerSection :: int

record CourseGroup =
  id_G :: string
  name_G :: "string option"
  label_G :: string
  color_G :: string
  order_G :: int
  courses :: "string list option"
  columns :: "string list"
  isSystem :: "bool option"
  columnMetadata :: "CourseColumnMetadata list option"

record PersistedSchedulerState =
  collapsedCourseGroups :: "string list"
  collapsedDivisions :: "Division list"
  sortBy :: "string option"
  prepsThreshold :: int
  lastAccessed :: string

record TeacherMetrics =
  totalLoad_M :: int
  availablePeriods_M :: int
  totalStudents_M :: int

record CourseTotals =
  students_CT :: int
  load_CT :: int
  remaining :: int
  periodsPerStudent :: real
  studentCount :: int

record SummaryTotals =
  totalTeachers :: int
  totalMaxLoad :: int
  totalAvailable :: int
  totalPreps :: int
  totalStudents_S :: int
  courseTotals :: "string \<rightharpoonup> CourseTotals"

section \<open>Column labels (utils/courseNameParser.ts)\<close>

text \<open>
  The string primitives of JavaScript that the parser uses, on character lists:
  \<^verbatim>\<open>startsWith\<close>, \<^verbatim>\<open>replace(/_/g, ' ')\<close>, \<^verbatim>\<open>split\<close> (which always yields at
  least one part), and the template-literal rendering of an array slot that may be
  \<^verbatim>\<open>undefined\<close>.
\<close>

definition startsWith :: "string \<Rightarrow> string \<Rightarrow> bool" where
  "startsWith s p = (take (length p) s = p)"

definition replaceUnderscores :: "string \<Rightarrow> string" where
  "replaceUnderscores s = map (\<lambda>c. if c = CHR ''_'' then CHR '' '' else c) s"

fun split :: "char \<Rightarrow> string \<Rightarrow> string list" where
  "split sep [] = [[]]"
| "split sep (c # cs) =
     (if c = sep then [] # split sep cs
      else (case split sep cs of
              [] \<Rightarrow> [[c]]
            | w # ws \<Rightarrow> (c # w) # ws))"

definition interpolate :: "string option \<Rightarrow> string" where
  "interpolate v = (case v of None \<Rightarrow> ''undefined'' | Some s \<Rightarrow> s)"

definition first_part :: "string list \<Rightarrow> string option" where
  "first_part parts = (case parts of [] \<Rightarrow> None | p # _ \<Rightarrow> Some p)"

definition last_part :: "string list \<Rightarrow> string option" where
  "last_part parts = (if parts = [] then None else Some (last parts))"

text \<open>
  \<^verbatim>\<open>parseCourseNameFromColumnId(columnId, groupId)\<close>. The group prefix is tested
  first; the token heuristic runs only for an id that does not start with
  \<^verbatim>\<open>groupId + "_"\<close>. \<^verbatim>\<open>parts.shift()\<close> drops the first token,
  \<^verbatim>\<open>parts.slice(1, -1)\<close> is the list without its first and last element.
\<close>

definition parseCourseNameFromColumnId :: "string \<Rightarrow> string \<Rightarrow> string" where
  "parseCourseNameFromColumnId colId groupId =
     (let prefix = groupId @ ''_'' in
      if startsWith colId prefix then
        (let nameWithoutGroup = drop (length prefix) colId
         in replaceUnderscores nameWithoutGroup)
      else if CHR ''_'' \<notin> set colId then colId
      else
        (let parts = tl (split (CHR ''_'') colId) in
         if length parts = 1 then interpolate (first_part parts)
         else
           (let base = interpolate (first_part parts);
                suffix = interpolate (last_part parts);
                middle = butlast (tl parts)
            in if length middle > 0
               then base @ ''('' @ concat middle @ '')'' @ suffix
               else base @ suffix)))"

section \<open>Teacher metrics (lib/calculations.ts)\<close>

text \<open>
  \<^verbatim>\<open>x || 0\<close> on an optional number: an absent value and zero both give zero.
  \<^verbatim>\<open>reduce\<close> with an initial value is a left fold.
\<close>

definition orZero :: "int option \<Rightarrow> int" where
  "orZero v = (case v of None \<Rightarrow> 0 | Some n \<Rightarrow> n)"

definition calculateTeacherMetrics :: "Teacher \<Rightarrow> TeacherMetrics" where
  "calculateTeacherMetrics teacher =
     (let total = foldl (\<lambda>sum a. sum + load a) 0
                    (filter (\<lambda>a. \<not> isCPT a) (assignments teacher));
          available = maxLoad teacher - total;
          studentTotal = foldl (\<lambda>sum a. sum + orZero (students a)) 0 (assignments teacher)
      in \<lparr>totalLoad_M = total, availablePeriods_M = available,
          totalStudents_M = studentTotal\<rparr>)"

definition enhanceTeacherWithMetrics :: "Teacher \<Rightarrow> Teacher" where
  "enhanceTeacherWithMetrics teacher =
     (let metrics = calculateTeacherMetrics teacher;
          prepCount = int (length (assignments teacher))
      in teacher\<lparr>totalLoad := Some (totalLoad_M metrics),
                 availablePeriods := Some (availablePeriods_M metrics),
                 students_T := totalStudents_M metrics,
                 preps := prepCount\<rparr>)"

section \<open>Visibility and persisted view state\<close>

text \<open>\<^verbatim>\<open>Array.prototype.includes\<close> as a scan of the array.\<close>

primrec includes_arr :: "'a list \<Rightarrow> 'a \<Rightarrow> bool" where
  "includes_arr [] x = False"
| "includes_arr (y # ys) x = (y = x \<or> includes_arr ys x)"

text \<open>
  \<^verbatim>\<open>visibleTeachers\<close> of SchedulerGrid.tsx: \<^verbatim>\<open>teachers.filter(...)\<close> builds a new
  array and never writes to \<^verbatim>\<open>teachers\<close>.
\<close>

definition visibleTeachers :: "Teacher list \<Rightarrow> Division list \<Rightarrow> Teacher list" where
  "visibleTeachers teachers collapsed =
     filter (\<lambda>teacher. \<not> includes_arr collapsed (division teacher)) teachers"

text \<open>
  The updater functions that usePersistedSchedulerState.ts hands to \<^verbatim>\<open>setState\<close>.
  The timestamp \<^verbatim>\<open>new Date().toISOString()\<close> is the parameter \<open>now\<close>.
\<close>

definition toggleCourseGroup :: "string \<Rightarrow> string \<Rightarrow> PersistedSchedulerState \<Rightarrow> PersistedSchedulerState" where
  "toggleCourseGroup now groupId prev =
     (let isCollapsed = includes_arr (collapsedCourseGroups prev) groupId
      in prev\<lparr>collapsedCourseGroups :=
                (if isCollapsed
                 then filter (\<lambda>i. i \<noteq> groupId) (collapsedCourseGroups prev)
                 else collapsedCourseGroups prev @ [groupId]),
              lastAccessed := now\<rparr>)"

definition toggleDivision :: "string \<Rightarrow> Division \<Rightarrow> PersistedSchedulerState \<Rightarrow> PersistedSchedulerState" where
  "toggleDivision now divn prev =
     (let isCollapsed = includes_arr (collapsedDivisions prev) divn
      in prev\<lparr>collapsedDivisions :=
                (if isCollapsed
                 then filter (\<lambda>d. d \<noteq> divn) (collapsedDivisions prev)
                 else collapsedDivisions prev @ [divn]),
              lastAccessed := now\<rparr>)"

section \<open>Summary aggregation (hooks/useSummaryCalculations.ts)\<close>

text \<open>
  \<^verbatim>\<open>group?.columns || group?.courses || []\<close>: \<^verbatim>\<open>columns\<close> is a required array
  and every array is truthy, so the alternatives are never taken.
\<close>

definition columnList :: "CourseGroup \<Rightarrow> string list" where
  "columnList grp = columns grp"

text \<open>
  The cell of a teacher in a column: the first assignment whose \<^verbatim>\<open>courseName\<close> is
  the column's label and whose \<^verbatim>\<open>courseGroup\<close> is the group id. The grid's cell
  renderer and the aggregation use the same \<^verbatim>\<open>find\<close>.
\<close>

definition findAssignment :: "string \<Rightarrow> string \<Rightarrow> Teacher \<Rightarrow> Assignment option" where
  "findAssignment cName groupId teacher =
     find (\<lambda>a. courseName a = cName \<and> courseGroup a = groupId) (assignments teacher)"

text \<open>
  The body of the inner \<^verbatim>\<open>visibleTeachers.forEach\<close>, on the three accumulators
  \<^verbatim>\<open>totalStudents\<close>, \<^verbatim>\<open>totalLoad\<close> and \<^verbatim>\<open>studentCount\<close>.
\<close>

definition accumulateTeacher :: "string \<Rightarrow> string \<Rightarrow> Teacher \<Rightarrow> int \<times> int \<times> int \<Rightarrow> int \<times> int \<times> int" where
  "accumulateTeacher cName groupId teacher acc =
     (case acc of (studentSum, loadSum, counted) \<Rightarrow>
        (case findAssignment cName groupId teacher of
           None \<Rightarrow> (studentSum, loadSum, counted)
         | Some assignment \<Rightarrow>
             (studentSum + orZero (students assignment),
              loadSum + load assignment,
              (if (case students assignment of None \<Rightarrow> False | Some n \<Rightarrow> n \<noteq> 0 \<and> n > 0)
               then counted + 1 else counted))))"

definition findMetadata :: "CourseGroup \<Rightarrow> string \<Rightarrow> CourseColumnMetadata option" where
  "findMetadata grp colId =
     (case columnMetadata grp of
        None \<Rightarrow> None
      | Some ms \<Rightarrow> find (\<lambda>m. columnId m = colId) ms)"

text \<open>The body of \<^verbatim>\<open>columnList.forEach\<close>: the totals record of one column.\<close>

definition columnTotals :: "Teacher list \<Rightarrow> CourseGroup \<Rightarrow> string \<Rightarrow> CourseTotals" where
  "columnTotals visible grp colId =
     (let cName = parseCourseNameFromColumnId colId (id_G grp) in
      case fold (accumulateTeacher cName (id_G grp)) visible (0, 0, 0) of
        (studentSum, loadSum, counted) \<Rightarrow>
          (let metadata = findMetadata grp colId;
               capacity = (case metadata of None \<Rightarrow> 0 | Some m \<Rightarrow> periodsPerCycle m);
               remain = (if capacity > 0 then capacity - loadSum else 0);
               perStudent = (if studentSum > 0
                             then real_of_int loadSum / real_of_int studentSum else 0)
           in \<lparr>students_CT = studentSum, load_CT = loadSum, remaining = remain,
               periodsPerStudent = perStudent, studentCount = counted\<rparr>))"

definition totalsKey :: "CourseGroup \<Rightarrow> string \<Rightarrow> string" where
  "totalsKey grp colId =
     id_G grp @ ''-'' @ parseCourseNameFromColumnId colId (id_G grp)"

definition useSummaryCalculations :: "Teacher list \<Rightarrow> CourseGroup list \<Rightarrow> string list \<Rightarrow> SummaryTotals" where
  "useSummaryCalculations visible courseGroups collapsedGroups =
     (let visibleCourseGroups =
            filter (\<lambda>g. \<not> includes_arr collapsedGroups (id_G g)) courseGroups;
          totals =
            fold (\<lambda>grp m.
                    fold (\<lambda>colId m'. m'(totalsKey grp colId \<mapsto> columnTotals visible grp colId))
                         (columnList grp) m)
                 visibleCourseGroups Map.empty
      in \<lparr>totalTeachers = int (length visible),
          totalMaxLoad = foldl (\<lambda>sum t. sum + maxLoad t) 0 visible,
          totalAvailable = foldl (\<lambda>sum t. sum + orZero (availablePeriods t)) 0 visible,
          totalPreps = foldl (\<lambda>sum t. sum + preps t) 0 visible,
          totalStudents_S = foldl (\<lambda>sum t. sum + students_T t) 0 visible,
          courseTotals = totals\<rparr>)"

text \<open>
  The visible columns, in group order then column order: the pairs the two nested
  \<^verbatim>\<open>forEach\<close> loops visit.
\<close>

definition visibleColumns :: "CourseGroup list \<Rightarrow> string list \<Rightarrow> (CourseGroup \<times> string) list" where
  "visibleColumns courseGroups collapsedGroups =
     concat (map (\<lambda>g. map (\<lambda>c. (g, c)) (columnList g))
                 (filter (\<lambda>g. \<not> includes_arr collapsedGroups (id_G g)) courseGroups))"

text \<open>
  The reading of the specification's aggregation sentence, for comparison with the
  source: every assignment of a row that matches the column is added.
\<close>

definition spec_loadSum :: "Teacher list \<Rightarrow> string \<Rightarrow> string \<Rightarrow> int" where
  "spec_loadSum visible groupId cName =
     sum_list (map (\<lambda>t. sum_list (map load
        (filter (\<lambda>a. courseName a = cName \<and> courseGroup a = groupId) (assignments t))))
        visible)"

definition spec_studentSum :: "Teacher list \<Rightarrow> string \<Rightarrow> string \<Rightarrow> int" where
  "spec_studentSum visible groupId cName =
     sum_list (map (\<lambda>t. sum_list (map (\<lambda>a. orZero (students a))
        (filter (\<lambda>a. courseName a = cName \<and> courseGroup a = groupId) (assignments t))))
        visible)"

text \<open>What the source adds for one row: the load and students of the row's cell.\<close>

definition cellLoad :: "string \<Rightarrow> string \<Rightarrow> Teacher \<Rightarrow> int" where
  "cellLoad groupId cName t =
     (case findAssignment cName groupId t of None \<Rightarrow> 0 | Some a \<Rightarrow> load a)"

definition cellStudents :: "string \<Rightarrow> string \<Rightarrow> Teacher \<Rightarrow> int" where
  "cellStudents groupId cName t =
     (case findAssignment cName groupId t of None \<Rightarrow> 0 | Some a \<Rightarrow> orZero (students a))"

section \<open>Drag and drop (AssignmentCell.tsx, SchedulerGrid.tsx, app/page.tsx)\<close>

record DragData =
  assignment_drag :: Assignment
  teacherId_drag :: string
  courseGroup_drag :: string

record DropData =
  teacherId_drop :: string
  courseGroup_drop :: string
  courseName_drop :: string

text \<open>
  A drag-end event: the id and data of the dragged element, and the id and data of the
  droppable under the pointer, absent when the drag ends outside every droppable.
\<close>

record DragEndEvent =
  active_id :: string
  active_data :: DragData
  over :: "(string \<times> DropData) option"

record AssignmentCellProps =
  teacherId_cell :: string
  assignment_cell :: "Assignment option"
  courseGroup_cell :: CourseGroup
  courseName_cell :: string

text \<open>The cell renderer of a course column, for one row.\<close>

definition gridCell :: "Teacher \<Rightarrow> CourseGroup \<Rightarrow> string \<Rightarrow> AssignmentCellProps" where
  "gridCell teacher grp colId =
     (let cName = parseCourseNameFromColumnId colId (id_G grp)
      in \<lparr>teacherId_cell = id_T teacher,
          assignment_cell = findAssignment cName (id_G grp) teacher,
          courseGroup_cell = grp,
          courseName_cell = cName\<rparr>)"

definition cellId :: "AssignmentCellProps \<Rightarrow> string" where
  "cellId props =
     teacherId_cell props @ ''-'' @ id_G (courseGroup_cell props) @ ''-'' @ courseName_cell props"

text \<open>
  \<^verbatim>\<open>useDraggable\<close> is disabled for a cell without an assignment: such a cell starts
  no drag. \<^verbatim>\<open>useDroppable\<close> is registered for every cell, occupied or not.
\<close>

definition draggable :: "AssignmentCellProps \<Rightarrow> (string \<times> DragData) option" where
  "draggable props =
     (case assignment_cell props of
        None \<Rightarrow> None
      | Some a \<Rightarrow>
          Some (''drag-'' @ cellId props,
                \<lparr>assignment_drag = a, teacherId_drag = teacherId_cell props,
                 courseGroup_drag = id_G (courseGroup_cell props)\<rparr>))"

definition droppable :: "AssignmentCellProps \<Rightarrow> string \<times> DropData" where
  "droppable props =
     (''drop-'' @ cellId props,
      \<lparr>teacherId_drop = teacherId_cell props,
       courseGroup_drop = id_G (courseGroup_cell props),
       courseName_drop = courseName_cell props\<rparr>)"

text \<open>
  The event delivered when the assignment of cell \<open>src\<close> is released over cell
  \<open>dst\<close>; there is none when \<open>src\<close> is empty.
\<close>

definition dragEnd :: "AssignmentCellProps \<Rightarrow> AssignmentCellProps \<Rightarrow> DragEndEvent option" where
  "dragEnd src dst =
     (case draggable src of
        None \<Rightarrow> None
      | Some (aid, adata) \<Rightarrow>
          Some \<lparr>active_id = aid, active_data = adata, over = Some (droppable dst)\<rparr>)"

text \<open>
  What \<^verbatim>\<open>handleDragEnd\<close> does besides clearing the drag overlay: nothing (a silent
  \<^verbatim>\<open>return\<close>), an error toast, or one call of \<^verbatim>\<open>onAssignmentUpdate\<close> with the new
  list of the source teacher and, for a move to another teacher, the new list of the
  target teacher.
\<close>

datatype DragOutcome =
    NoOp
  | ToastError string string
  | AssignmentUpdate string "Assignment list" "(string \<times> Assignment list) list option"

definition handleDragEnd :: "Teacher list \<Rightarrow> DragEndEvent \<Rightarrow> DragOutcome" where
  "handleDragEnd teachers event =
     (case over event of
        None \<Rightarrow> NoOp
      | Some (over_id, dropData) \<Rightarrow>
          if active_id event = over_id then NoOp
          else
            (let dragData = active_data event in
             if courseGroup_drag dragData \<noteq> courseGroup_drop dropData
             then ToastError ''Invalid drop''
                    ''Cannot drop assignment to a different course group''
             else
               (case find (\<lambda>t. id_T t = teacherId_drag dragData) teachers of
                  None \<Rightarrow> NoOp
                | Some sourceTeacher \<Rightarrow>
                    (case find (\<lambda>t. id_T t = teacherId_drop dropData) teachers of
                       None \<Rightarrow> NoOp
                     | Some targetTeacher \<Rightarrow>
                         if teacherId_drag dragData = teacherId_drop dropData
                            \<and> courseName (assignment_drag dragData) = courseName_drop dropData
                         then NoOp
                         else
                           (let updatedSourceAssignments =
                                  filter (\<lambda>a. \<not> (courseId a = courseId (assignment_drag dragData)))
                                         (assignments sourceTeacher);
                                moved = (assignment_drag dragData)
                                          \<lparr>courseName := courseName_drop dropData\<rparr>
                            in if teacherId_drag dragData = teacherId_drop dropData
                               then AssignmentUpdate (id_T sourceTeacher)
                                      (updatedSourceAssignments @ [moved]) None
                               else AssignmentUpdate (id_T sourceTeacher)
                                      updatedSourceAssignments
                                      (Some [(id_T targetTeacher,
                                              assignments targetTeacher @ [moved])]))))))"

text \<open>
  \<^verbatim>\<open>handleAssignmentUpdate\<close> of app/page.tsx on the teacher list of the loaded data:
  the updates are collected in a \<^verbatim>\<open>Map\<close> (a later entry for the same id replaces
  an earlier one) and every teacher with an entry gets the new list and fresh metrics.
\<close>

definition handleAssignmentUpdate :: "Teacher list \<Rightarrow> string \<Rightarrow> Assignment list \<Rightarrow> (string \<times> Assignment list) list option \<Rightarrow> Teacher list" where
  "handleAssignmentUpdate teachers teacherId newList additionalUpdates =
     (let updates =
            fold (\<lambda>(tid, lst) m. m(tid \<mapsto> lst))
                 (case additionalUpdates of None \<Rightarrow> [] | Some us \<Rightarrow> us)
                 (Map.empty(teacherId \<mapsto> newList))
      in map (\<lambda>teacher.
                case updates (id_T teacher) of
                  Some newAssignments \<Rightarrow>
                    enhanceTeacherWithMetrics (teacher\<lparr>assignments := newAssignments\<rparr>)
                | None \<Rightarrow> teacher)
             teachers)"

text \<open>
  The grid wired to the page: \<^verbatim>\<open>onAssignmentUpdate\<close> is \<^verbatim>\<open>handleAssignmentUpdate\<close>,
  and the other outcomes leave the teacher list as it is.
\<close>

definition relocate :: "Teacher list \<Rightarrow> DragEndEvent \<Rightarrow> Teacher list" where
  "relocate teachers event =
     (case handleDragEnd teachers event of
        AssignmentUpdate tid lst adds \<Rightarrow> handleAssignmentUpdate teachers tid lst adds
      | _ \<Rightarrow> teachers)"

text \<open>The consumed load of a teacher: the load of the assignments that are not CPT.\<close>

definition consumedLoad :: "Teacher \<Rightarrow> int" where
  "consumedLoad teacher = totalLoad_M (calculateTeacherMetrics teacher)"

section \<open>Concrete scenarios\<close>

text \<open>
  The rows and groups used to run the definitions: teacher A holds one CCW6 assignment,
  teacher B none, teacher D holds the same course twice. Group CCW6 has two columns,
  labelled \<^verbatim>\<open>CCW6\<close> and \<^verbatim>\<open>CCW E 6\<close>; the catalog figure of the first is 0.
  Group CLUBS has two column ids with the same label, hence the same totals key.
\<close>

definition mkAssignment :: "string \<Rightarrow> string \<Rightarrow> string \<Rightarrow> int \<Rightarrow> int \<Rightarrow> Assignment" where
  "mkAssignment cid cName gid ld st =
     \<lparr>courseId = cid, courseName = cName, courseGroup = gid, load = ld, isCPT = False,
      students = Some st, color = None\<rparr>"

definition mkTeacher :: "string \<Rightarrow> Division \<Rightarrow> int \<Rightarrow> Assignment list \<Rightarrow> Teacher" where
  "mkTeacher tid dv mx lst =
     enhanceTeacherWithMetrics
       \<lparr>id_T = tid, name_T = tid, division = dv, otherRole = None, maxLoad = mx, preps = 0,
        students_T = 0, assignments = lst, totalLoad = None, availablePeriods = None\<rparr>"

definition mkGroup :: "string \<Rightarrow> string list \<Rightarrow> CourseColumnMetadata list option \<Rightarrow> CourseGroup" where
  "mkGroup gid cols meta =
     \<lparr>id_G = gid, name_G = None, label_G = gid, color_G = ''#FDB777'', order_G = 0,
      courses = None, columns = cols, isSystem = None, columnMetadata = meta\<rparr>"

definition ccw6 :: CourseGroup where
  "ccw6 = mkGroup ''CCW6'' [''CCW6_CCW6'', ''CCW6_CCW_E_6'']
     (Some [\<lparr>columnId = ''CCW6_CCW6'', totalSections = 4, periodsPerCycle = 0,
             remainingPeriod = 0, studentsPerSection = 20\<rparr>,
            \<lparr>columnId = ''CCW6_CCW_E_6'', totalSections = 2, periodsPerCycle = 12,
             remainingPeriod = 0, studentsPerSection = 20\<rparr>])"

definition ccw7 :: CourseGroup where
  "ccw7 = mkGroup ''CCW7'' [''CCW7_CCW7''] None"

definition clubs :: CourseGroup where
  "clubs = mkGroup ''CLUBS'' [''CLUBS_Art_Club'', ''CLUBS_Art Club''] None"

definition assignmentA :: Assignment where
  "assignmentA = mkAssignment ''CCW6_A'' ''CCW6'' ''CCW6'' 6 20"

definition teacherA :: Teacher where
  "teacherA = mkTeacher ''A'' MS 10 [assignmentA]"

definition teacherB :: Teacher where
  "teacherB = mkTeacher ''B'' HS 4 []"

definition teacherD :: Teacher where
  "teacherD = mkTeacher ''D'' MS 12
     [assignmentA, mkAssignment ''CCW6_A'' ''CCW6'' ''CCW6'' 3 10]"

definition uiState :: PersistedSchedulerState where
  "uiState = \<lparr>collapsedCourseGroups = [], collapsedDivisions = [HS], sortBy = None,
              prepsThreshold = 3, lastAccessed = ''2024-01-01T00:00:00.000Z''\<rparr>"

text \<open>
  Drag-end events of the grid: the assignment \<open>x\<close> of the cell of teacher \<open>tid\<close> in
  group \<open>gid\<close> released over the cell of teacher \<open>dTid\<close> in group \<open>dGid\<close> under the
  column labelled \<open>dName\<close>.
\<close>

definition mkEvent :: "string \<Rightarrow> Assignment \<Rightarrow> string \<Rightarrow> string \<Rightarrow> string \<Rightarrow> string \<Rightarrow> DragEndEvent" where
  "mkEvent tid x gid dTid dGid dName =
     \<lparr>active_id = ''drag-'' @ tid @ ''-'' @ gid @ ''-'' @ courseName x,
      active_data = \<lparr>assignment_drag = x, teacherId_drag = tid, courseGroup_drag = gid\<rparr>,
      over = Some (''drop-'' @ dTid @ ''-'' @ dGid @ ''-'' @ dName,
                   \<lparr>teacherId_drop = dTid, courseGroup_drop = dGid,
                    courseName_drop = dName\<rparr>)\<rparr>"

definition evCrossGroup :: DragEndEvent where
  "evCrossGroup = mkEvent ''A'' assignmentA ''CCW6'' ''B'' ''CCW7'' ''CCW7''"

definition evMove :: DragEndEvent where
  "evMove = mkEvent ''A'' assignmentA ''CCW6'' ''B'' ''CCW6'' ''CCW6''"

definition evShift :: DragEndEvent where
  "evShift = mkEvent ''A'' assignmentA ''CCW6'' ''B'' ''CCW6'' ''CCW E 6''"

definition evDuplicate :: DragEndEvent where
  "evDuplicate = mkEvent ''D'' assignmentA ''CCW6'' ''B'' ''CCW6'' ''CCW6''"

definition evRelabel :: DragEndEvent where
  "evRelabel = mkEvent ''D'' assignmentA ''CCW6'' ''D'' ''CCW6'' ''CCW E 6''"

lemmas scenario_defs =
  mkAssignment_def mkTeacher_def mkGroup_def ccw6_def ccw7_def clubs_def assignmentA_def
  teacherA_def teacherB_def teacherD_def uiState_def

lemmas event_defs =
  mkEvent_def evCrossGroup_def evMove_def evShift_def evDuplicate_def evRelabel_def

section \<open>Auxiliary facts\<close>

lemma split_nonempty: "split sep s \<noteq> []"
  by (induction s) (auto split: list.splits)

lemma includes_arr_set: "includes_arr xs x \<longleftrightarrow> x \<in> set xs"
  by (induction xs) auto

lemma count_list_filter:
  "count_list (filter P xs) x = (if P x then count_list xs x else 0)"
  by (induction xs) auto

lemma filter_neq_id:
  "d \<notin> set xs \<Longrightarrow> filter (\<lambda>x. x \<noteq> d) xs = xs"
  by (induction xs) auto

lemma includes_arr_append: "includes_arr (xs @ [d]) d"
  by (simp add: includes_arr_set)

lemma fold_accumulateTeacher:
  "fold (accumulateTeacher cn gid) vts (a, b, c) =
     (a + sum_list (map (cellStudents gid cn) vts),
      b + sum_list (map (cellLoad gid cn) vts),
      c + sum_list (map (\<lambda>t. case findAssignment cn gid t of None \<Rightarrow> 0
            | Some x \<Rightarrow> (if (case students x of None \<Rightarrow> False | Some n \<Rightarrow> n \<noteq> 0 \<and> n > 0) then 1 else 0)) vts))"
  by (induction vts arbitrary: a b c)
     (auto simp: accumulateTeacher_def cellStudents_def cellLoad_def split: option.splits)

lemma columnTotals_load:
  "load_CT (columnTotals vts g c) =
     sum_list (map (cellLoad (id_G g) (parseCourseNameFromColumnId c (id_G g))) vts)"
  by (simp add: columnTotals_def Let_def fold_accumulateTeacher)

lemma columnTotals_students:
  "students_CT (columnTotals vts g c) =
     sum_list (map (cellStudents (id_G g) (parseCourseNameFromColumnId c (id_G g))) vts)"
  by (simp add: columnTotals_def Let_def fold_accumulateTeacher)

lemma columnTotals_remaining:
  "remaining (columnTotals vts g c) =
     (case findMetadata g c of
        None \<Rightarrow> 0
      | Some m \<Rightarrow> if periodsPerCycle m > 0
                  then periodsPerCycle m - load_CT (columnTotals vts g c) else 0)"
  by (simp add: columnTotals_def Let_def fold_accumulateTeacher split: option.splits)

lemma fold_upd_notin:
  "k \<notin> f ` set xs \<Longrightarrow> fold (\<lambda>x m. m(f x \<mapsto> h x)) xs m0 k = m0 k"
proof (induction xs arbitrary: m0)
  case Nil
  then show ?case by simp
next
  case (Cons y ys)
  from Cons.prems have notin: "k \<notin> f ` set ys" and neq: "k \<noteq> f y" by auto
  have "fold (\<lambda>x m. m(f x \<mapsto> h x)) (y # ys) m0 k
          = fold (\<lambda>x m. m(f x \<mapsto> h x)) ys (m0(f y \<mapsto> h y)) k"
    by (simp del: fun_upd_apply)
  also have "\<dots> = (m0(f y \<mapsto> h y)) k"
    by (rule Cons.IH [OF notin])
  also have "\<dots> = m0 k"
    using neq by simp
  finally show ?case .
qed

lemma fold_upd_lookup:
  assumes "x \<in> set xs"
    and "\<forall>y \<in> set xs. f y = f x \<longrightarrow> y = x"
  shows "fold (\<lambda>x m. m(f x \<mapsto> h x)) xs m0 (f x) = Some (h x)"
  using assms
proof (induction xs arbitrary: m0)
  case Nil
  then show ?case by simp
next
  case (Cons y ys)
  have step: "fold (\<lambda>x m. m(f x \<mapsto> h x)) (y # ys) m0 (f x)
          = fold (\<lambda>x m. m(f x \<mapsto> h x)) ys (m0(f y \<mapsto> h y)) (f x)"
    by (simp del: fun_upd_apply)
  show ?case
  proof (cases "x \<in> set ys")
    case True
    moreover from Cons.prems(2) have "\<forall>y \<in> set ys. f y = f x \<longrightarrow> y = x"
      by simp
    ultimately have "fold (\<lambda>x m. m(f x \<mapsto> h x)) ys (m0(f y \<mapsto> h y)) (f x) = Some (h x)"
      by (rule Cons.IH)
    with step show ?thesis by (simp only:)
  next
    case False
    with Cons.prems(1) have xy: "x = y" by simp
    from False Cons.prems(2) have "f x \<notin> f ` set ys" by auto
    then have "fold (\<lambda>x m. m(f x \<mapsto> h x)) ys (m0(f y \<mapsto> h y)) (f x)
                 = (m0(f y \<mapsto> h y)) (f x)"
      by (rule fold_upd_notin)
    also have "\<dots> = Some (h x)"
      using xy by simp
    finally show ?thesis
      using step by (simp only:)
  qed
qed

lemma inner_fold_flat:
  "fold (\<lambda>c m'. m'(k g c \<mapsto> v g c)) cs m =
   fold (\<lambda>p m. m(case_prod k p \<mapsto> case_prod v p)) (map (\<lambda>c. (g, c)) cs) m"
  by (induction cs arbitrary: m) (simp_all del: fun_upd_apply)

lemma nested_fold_flat:
  "fold (\<lambda>g m. fold (\<lambda>c m'. m'(k g c \<mapsto> v g c)) (cols g) m) gs m0 =
   fold (\<lambda>p m. m(case_prod k p \<mapsto> case_prod v p))
        (concat (map (\<lambda>g. map (\<lambda>c. (g, c)) (cols g)) gs)) m0"
  by (induction gs arbitrary: m0) (simp_all add: inner_fold_flat del: fun_upd_apply)

lemma courseTotals_lookup:
  assumes "(g, c) \<in> set (visibleColumns gs collapsed)"
    and "\<forall>(g', c') \<in> set (visibleColumns gs collapsed).
           totalsKey g' c' = totalsKey g c \<longrightarrow> (g', c') = (g, c)"
  shows "courseTotals (useSummaryCalculations vts gs collapsed) (totalsKey g c)
           = Some (columnTotals vts g c)"
proof -
  have "courseTotals (useSummaryCalculations vts gs collapsed) =
        fold (\<lambda>p m. m((\<lambda>(g, c). totalsKey g c) p \<mapsto> (\<lambda>(g, c). columnTotals vts g c) p))
             (visibleColumns gs collapsed) Map.empty"
    by (simp add: useSummaryCalculations_def Let_def visibleColumns_def nested_fold_flat
          del: fun_upd_apply)
  moreover have "\<forall>p \<in> set (visibleColumns gs collapsed).
      (\<lambda>(g, c). totalsKey g c) p = (\<lambda>(g, c). totalsKey g c) (g, c) \<longrightarrow> p = (g, c)"
    using assms(2) by auto
  ultimately show ?thesis
    using fold_upd_lookup [OF assms(1), of "\<lambda>(g, c). totalsKey g c"
        "\<lambda>(g, c). columnTotals vts g c" Map.empty]
    by simp
qed

lemma unshared_key:
  assumes "filter (\<lambda>(g', c'). totalsKey g' c' = totalsKey g c) cols = [(g, c)]"
  shows "\<forall>(g', c') \<in> set cols. totalsKey g' c' = totalsKey g c \<longrightarrow> (g', c') = (g, c)"
proof (intro ballI)
  fix p assume "p \<in> set cols"
  show "case p of (g', c') \<Rightarrow> totalsKey g' c' = totalsKey g c \<longrightarrow> (g', c') = (g, c)"
  proof (cases p)
    case (Pair g' c')
    show ?thesis
    proof (simp only: Pair prod.case, intro impI)
      assume "totalsKey g' c' = totalsKey g c"
      with \<open>p \<in> set cols\<close> Pair
      have "(g', c') \<in> set (filter (\<lambda>(g', c'). totalsKey g' c' = totalsKey g c) cols)"
        by simp
      with assms show "(g', c') = (g, c)" by simp
    qed
  qed
qed

lemma find_by_id:
  "distinct (map id_T ts) \<Longrightarrow> s \<in> set ts \<Longrightarrow> find (\<lambda>u. id_T u = id_T s) ts = Some s"
  by (induction ts) (auto simp: image_iff)

lemma drag_neq_drop: "''drag-'' @ a \<noteq> ''drop-'' @ b"
  by simp

lemma findAssignment_Some:
  "findAssignment cn gid u = Some x \<Longrightarrow>
     courseName x = cn \<and> courseGroup x = gid \<and> x \<in> set (assignments u)"
  by (auto simp: findAssignment_def find_Some_iff)

lemma dragEnd_grid:
  assumes "dragEnd (gridCell s g c) (gridCell t g' c') = Some ev"
  shows "findAssignment (parseCourseNameFromColumnId c (id_G g)) (id_G g) s
           = Some (assignment_drag (active_data ev))"
    and "teacherId_drag (active_data ev) = id_T s"
    and "courseGroup_drag (active_data ev) = id_G g"
    and "\<exists>aid oid. active_id ev = ''drag-'' @ aid \<and>
           over ev = Some (''drop-'' @ oid,
             \<lparr>teacherId_drop = id_T t, courseGroup_drop = id_G g',
              courseName_drop = parseCourseNameFromColumnId c' (id_G g')\<rparr>)"
  using assms
  by (auto simp: dragEnd_def draggable_def droppable_def gridCell_def Let_def
           split: option.splits)

lemma dragEnd_moved:
  assumes "dragEnd (gridCell s g c) (gridCell t g' c') = Some ev"
  shows "courseName (assignment_drag (active_data ev)) = parseCourseNameFromColumnId c (id_G g)"
    and "courseGroup (assignment_drag (active_data ev)) = id_G g"
    and "assignment_drag (active_data ev) \<in> set (assignments s)"
  using findAssignment_Some [OF dragEnd_grid(1) [OF assms]] by simp_all

lemma handleDragEnd_cross_group:
  assumes "dragEnd (gridCell s g c) (gridCell t g' c') = Some ev"
    and "id_G g' \<noteq> id_G g"
  shows "handleDragEnd ts ev =
           ToastError ''Invalid drop'' ''Cannot drop assignment to a different course group''"
proof -
  from dragEnd_grid(4) [OF assms(1)] obtain aid oid where
    a: "active_id ev = ''drag-'' @ aid" and
    o: "over ev = Some (''drop-'' @ oid,
             \<lparr>teacherId_drop = id_T t, courseGroup_drop = id_G g',
              courseName_drop = parseCourseNameFromColumnId c' (id_G g')\<rparr>)"
    by blast
  show ?thesis
    using assms(2) dragEnd_grid(3) [OF assms(1)]
    by (simp add: handleDragEnd_def a o Let_def)
qed

lemma handleDragEnd_accepted:
  assumes ev: "dragEnd (gridCell s g c) (gridCell t g' c') = Some ev"
    and grp: "id_G g' = id_G g"
    and fs: "find (\<lambda>u. id_T u = id_T s) ts = Some s0"
    and ft: "find (\<lambda>u. id_T u = id_T t) ts = Some t0"
    and cell: "\<not> (id_T s = id_T t \<and>
          parseCourseNameFromColumnId c (id_G g) = parseCourseNameFromColumnId c' (id_G g'))"
  shows "handleDragEnd ts ev =
     (if id_T s = id_T t
      then AssignmentUpdate (id_T s0)
             (filter (\<lambda>a. courseId a \<noteq> courseId (assignment_drag (active_data ev)))
                     (assignments s0)
              @ [(assignment_drag (active_data ev))
                   \<lparr>courseName := parseCourseNameFromColumnId c' (id_G g')\<rparr>]) None
      else AssignmentUpdate (id_T s0)
             (filter (\<lambda>a. courseId a \<noteq> courseId (assignment_drag (active_data ev)))
                     (assignments s0))
             (Some [(id_T t0, assignments t0 @
                [(assignment_drag (active_data ev))
                   \<lparr>courseName := parseCourseNameFromColumnId c' (id_G g')\<rparr>])]))"
proof -
  from dragEnd_grid(4) [OF ev] obtain aid oid where
    a: "active_id ev = ''drag-'' @ aid" and
    o: "over ev = Some (''drop-'' @ oid,
             \<lparr>teacherId_drop = id_T t, courseGroup_drop = id_G g',
              courseName_drop = parseCourseNameFromColumnId c' (id_G g')\<rparr>)"
    by blast
  show ?thesis
    using grp cell fs ft dragEnd_grid(2,3) [OF ev] dragEnd_moved(1) [OF ev]
    by (simp add: handleDragEnd_def a o Let_def)
qed

lemma find_map_same_id:
  assumes "\<And>u. id_T (h u) = id_T u"
  shows "find (\<lambda>u. id_T u = k) (map h ts) = map_option h (find (\<lambda>u. id_T u = k) ts)"
  by (induction ts) (simp_all add: assms)

lemma handleDragEnd_maxLoad:
  "handleDragEnd (map (\<lambda>u. u\<lparr>maxLoad := m u\<rparr>) ts) ev = handleDragEnd ts ev"
proof -
  have f: "find (\<lambda>u. id_T u = k) (map (\<lambda>u. u\<lparr>maxLoad := m u\<rparr>) ts)
             = map_option (\<lambda>u. u\<lparr>maxLoad := m u\<rparr>) (find (\<lambda>u. id_T u = k) ts)" for k
    by (rule find_map_same_id) simp
  show ?thesis
    by (simp add: handleDragEnd_def f Let_def split: option.splits prod.splits)
qed

lemma foldl_add_sum: "foldl (\<lambda>sum a. sum + f a) (z::int) xs = z + sum_list (map f xs)"
  by (induction xs arbitrary: z) simp_all

lemma consumedLoad_sum:
  "consumedLoad u = sum_list (map load (filter (\<lambda>a. \<not> isCPT a) (assignments u)))"
  by (simp add: consumedLoad_def calculateTeacherMetrics_def Let_def foldl_add_sum)

lemma availablePeriods_no_clamp:
  "availablePeriods_M (calculateTeacherMetrics u) = maxLoad u - consumedLoad u"
  by (simp add: consumedLoad_def calculateTeacherMetrics_def Let_def)

lemma enhance_fields:
  "id_T (enhanceTeacherWithMetrics u) = id_T u"
  "division (enhanceTeacherWithMetrics u) = division u"
  "assignments (enhanceTeacherWithMetrics u) = assignments u"
  "maxLoad (enhanceTeacherWithMetrics u) = maxLoad u"
  "availablePeriods (enhanceTeacherWithMetrics u) = Some (maxLoad u - consumedLoad u)"
  by (simp_all add: enhanceTeacherWithMetrics_def Let_def availablePeriods_no_clamp)

lemma handleAssignmentUpdate_one:
  "handleAssignmentUpdate ts k lst None =
     map (\<lambda>u. if id_T u = k then enhanceTeacherWithMetrics (u\<lparr>assignments := lst\<rparr>) else u) ts"
  by (simp add: handleAssignmentUpdate_def Let_def)

lemma handleAssignmentUpdate_two:
  "handleAssignmentUpdate ts k lst (Some [(k', lst')]) =
     map (\<lambda>u. if id_T u = k' then enhanceTeacherWithMetrics (u\<lparr>assignments := lst'\<rparr>)
              else if id_T u = k then enhanceTeacherWithMetrics (u\<lparr>assignments := lst\<rparr>)
              else u) ts"
  by (simp add: handleAssignmentUpdate_def Let_def)

lemma at_most_one_cell:
  "length (filter P xs) \<le> 1 \<Longrightarrow>
     (case find P xs of None \<Rightarrow> 0 | Some a \<Rightarrow> f a) = (sum_list (map f (filter P xs)) :: int)"
proof (induction xs)
  case Nil
  then show ?case by simp
next
  case (Cons x xs)
  show ?case
  proof (cases "P x")
    case True
    with Cons.prems have "filter P xs = []" by simp
    with True show ?thesis by simp
  next
    case False
    with Cons show ?thesis by simp
  qed
qed

lemma cellLoad_spec:
  assumes "\<forall>t \<in> set vts. length (filter (\<lambda>a. courseName a = cn \<and> courseGroup a = gid) (assignments t)) \<le> 1"
  shows "sum_list (map (cellLoad gid cn) vts) = spec_loadSum vts gid cn"
  using assms
  by (induction vts) (simp_all add: spec_loadSum_def cellLoad_def findAssignment_def at_most_one_cell)

lemma cellStudents_spec:
  assumes "\<forall>t \<in> set vts. length (filter (\<lambda>a. courseName a = cn \<and> courseGroup a = gid) (assignments t)) \<le> 1"
  shows "sum_list (map (cellStudents gid cn) vts) = spec_studentSum vts gid cn"
  using assms
  by (induction vts)
     (simp_all add: spec_studentSum_def cellStudents_def findAssignment_def at_most_one_cell)

lemma label_CCW6: "parseCourseNameFromColumnId ''CCW6_CCW6'' ''CCW6'' = ''CCW6''"
  by (simp add: parseCourseNameFromColumnId_def startsWith_def replaceUnderscores_def)

lemma label_CCW_E_6: "parseCourseNameFromColumnId ''CCW6_CCW_E_6'' ''CCW6'' = ''CCW E 6''"
  by (simp add: parseCourseNameFromColumnId_def startsWith_def replaceUnderscores_def)

lemma label_CCW7: "parseCourseNameFromColumnId ''CCW7_CCW7'' ''CCW7'' = ''CCW7''"
  by (simp add: parseCourseNameFromColumnId_def startsWith_def replaceUnderscores_def)

lemmas label_simps = label_CCW6 label_CCW_E_6 label_CCW7

lemma scenario_columns:
  "visibleColumns [ccw6, clubs] []
     = [(ccw6, ''CCW6_CCW6''), (ccw6, ''CCW6_CCW_E_6''),
        (clubs, ''CLUBS_Art_Club''), (clubs, ''CLUBS_Art Club'')]"
  by (simp add: visibleColumns_def columnList_def ccw6_def clubs_def mkGroup_def)

lemma scenario_keys:
  "totalsKey ccw6 ''CCW6_CCW6'' = ''CCW6-CCW6''"
  "totalsKey ccw6 ''CCW6_CCW_E_6'' = ''CCW6-CCW E 6''"
  "totalsKey clubs ''CLUBS_Art_Club'' = ''CLUBS-Art Club''"
  "totalsKey clubs ''CLUBS_Art Club'' = ''CLUBS-Art Club''"
  by (simp_all add: totalsKey_def parseCourseNameFromColumnId_def startsWith_def
        replaceUnderscores_def ccw6_def clubs_def mkGroup_def)

lemma scenario_unshared:
  "filter (\<lambda>(g', c'). totalsKey g' c' = totalsKey ccw6 ''CCW6_CCW6'')
          (visibleColumns [ccw6, clubs] []) = [(ccw6, ''CCW6_CCW6'')]"
  "filter (\<lambda>(g', c'). totalsKey g' c' = totalsKey ccw6 ''CCW6_CCW_E_6'')
          (visibleColumns [ccw6, clubs] []) = [(ccw6, ''CCW6_CCW_E_6'')]"
  "\<not> distinct (map (\<lambda>(g, c). totalsKey g c) (visibleColumns [ccw6, clubs] []))"
  unfolding scenario_columns by (simp_all add: scenario_keys)

lemmas cell_defs =
  dragEnd_def draggable_def droppable_def gridCell_def cellId_def findAssignment_def

lemma scenario_teachers:
  "teacherA = \<lparr>id_T = ''A'', name_T = ''A'', division = MS, otherRole = None, maxLoad = 10,
      preps = 1, students_T = 20, assignments = [assignmentA], totalLoad = Some 6,
      availablePeriods = Some 4\<rparr>"
  "teacherB = \<lparr>id_T = ''B'', name_T = ''B'', division = HS, otherRole = None, maxLoad = 4,
      preps = 0, students_T = 0, assignments = [], totalLoad = Some 0,
      availablePeriods = Some 4\<rparr>"
  "teacherD = \<lparr>id_T = ''D'', name_T = ''D'', division = MS, otherRole = None, maxLoad = 12,
      preps = 2, students_T = 30,
      assignments = [assignmentA, mkAssignment ''CCW6_A'' ''CCW6'' ''CCW6'' 3 10],
      totalLoad = Some 9, availablePeriods = Some 3\<rparr>"
  by (simp_all add: teacherA_def teacherB_def teacherD_def mkTeacher_def assignmentA_def
        mkAssignment_def enhanceTeacherWithMetrics_def calculateTeacherMetrics_def
        orZero_def Let_def)

lemma scenario_events:
  "dragEnd (gridCell teacherA ccw6 ''CCW6_CCW6'') (gridCell teacherB ccw7 ''CCW7_CCW7'')
     = Some evCrossGroup"
  "dragEnd (gridCell teacherA ccw6 ''CCW6_CCW6'') (gridCell teacherB ccw6 ''CCW6_CCW6'')
     = Some evMove"
  "dragEnd (gridCell teacherA ccw6 ''CCW6_CCW6'') (gridCell teacherB ccw6 ''CCW6_CCW_E_6'')
     = Some evShift"
  "dragEnd (gridCell teacherD ccw6 ''CCW6_CCW6'') (gridCell teacherB ccw6 ''CCW6_CCW6'')
     = Some evDuplicate"
  "dragEnd (gridCell teacherD ccw6 ''CCW6_CCW6'') (gridCell teacherD ccw6 ''CCW6_CCW_E_6'')
     = Some evRelabel"
  by (simp_all add: scenario_teachers cell_defs event_defs ccw6_def ccw7_def mkGroup_def
        assignmentA_def mkAssignment_def label_simps Let_def)

lemma consumedLoad_append:
  "consumedLoad (u\<lparr>assignments := assignments u @ [x]\<rparr>)
     = consumedLoad u + (if isCPT x then 0 else load x)"
  by (simp add: consumedLoad_sum)

lemma visibleTeachers_map:
  assumes "\<And>u. division (h u) = division u"
  shows "visibleTeachers (map h ts) collapsed = map h (visibleTeachers ts collapsed)"
  by (induction ts) (simp_all add: visibleTeachers_def assms)

lemma same_id_same_teacher:
  "distinct (map id_T ts) \<Longrightarrow> u \<in> set ts \<Longrightarrow> s \<in> set ts \<Longrightarrow> id_T u = id_T s \<Longrightarrow> u = s"
  by (metis distinct_map inj_on_eq_iff)

lemma sum_list_zero_at_other_ids:
  "k \<notin> id_T ` set ts \<Longrightarrow> sum_list (map (\<lambda>u. if id_T u = k then d else (0::int)) ts) = 0"
  by (induction ts) auto

lemma sum_list_at_id:
  "distinct (map id_T ts) \<Longrightarrow> s \<in> set ts \<Longrightarrow>
     sum_list (map (\<lambda>u. if id_T u = id_T s then d else (0::int)) ts) = d"
proof (induction ts)
  case Nil
  then show ?case by simp
next
  case (Cons u us)
  show ?case
  proof (cases "u = s")
    case True
    with Cons.prems have "id_T s \<notin> id_T ` set us" by simp
    then show ?thesis using True by (simp add: sum_list_zero_at_other_ids)
  next
    case False
    with Cons.prems have "s \<in> set us" and "id_T u \<noteq> id_T s" and "distinct (map id_T us)"
      by (auto simp: image_iff)
    with Cons.IH show ?thesis by simp
  qed
qed

lemma sum_list_update_two:
  fixes f :: "Teacher \<Rightarrow> int"
  assumes ids: "distinct (map id_T ts)"
    and src: "s \<in> set ts" and tgt: "t \<in> set ts"
    and other: "id_T s \<noteq> id_T t"
  shows "sum_list (map f (map (\<lambda>u. if id_T u = id_T t then T u
                                   else if id_T u = id_T s then S u else u) ts))
         = sum_list (map f ts) + (f (T t) - f t) + (f (S s) - f s)"
proof -
  let ?upd = "\<lambda>u. if id_T u = id_T t then T u else if id_T u = id_T s then S u else u"
  have pointwise: "f (?upd u) = f u + (if id_T u = id_T t then f (T t) - f t else 0)
                                 + (if id_T u = id_T s then f (S s) - f s else 0)"
    if "u \<in> set ts" for u
    using same_id_same_teacher [OF ids that tgt] same_id_same_teacher [OF ids that src] other
    by auto
  have "sum_list (map f (map ?upd ts)) = sum_list (map (\<lambda>u. f (?upd u)) ts)"
    by (simp add: comp_def)
  also have "\<dots> = sum_list (map (\<lambda>u. f u + (if id_T u = id_T t then f (T t) - f t else 0)
                                 + (if id_T u = id_T s then f (S s) - f s else 0)) ts)"
    by (rule arg_cong [where f = sum_list], rule map_cong [OF refl]) (rule pointwise)
  also have "\<dots> = sum_list (map f ts)
        + sum_list (map (\<lambda>u. if id_T u = id_T t then f (T t) - f t else 0) ts)
        + sum_list (map (\<lambda>u. if id_T u = id_T s then f (S s) - f s else 0) ts)"
    by (simp add: sum_list_addf)
  finally show ?thesis
    by (simp add: sum_list_at_id [OF ids tgt] sum_list_at_id [OF ids src])
qed

lemma sum_list_update_one:
  fixes f :: "Teacher \<Rightarrow> int"
  assumes ids: "distinct (map id_T ts)"
    and src: "s \<in> set ts"
  shows "sum_list (map f (map (\<lambda>u. if id_T u = id_T s then S u else u) ts))
         = sum_list (map f ts) + (f (S s) - f s)"
proof -
  let ?upd = "\<lambda>u. if id_T u = id_T s then S u else u"
  have pointwise: "f (?upd u) = f u + (if id_T u = id_T s then f (S s) - f s else 0)"
    if "u \<in> set ts" for u
    using same_id_same_teacher [OF ids that src] by auto
  have "sum_list (map f (map ?upd ts)) = sum_list (map (\<lambda>u. f (?upd u)) ts)"
    by (simp add: comp_def)
  also have "\<dots> = sum_list (map (\<lambda>u. f u + (if id_T u = id_T s then f (S s) - f s else 0)) ts)"
    by (rule arg_cong [where f = sum_list], rule map_cong [OF refl]) (rule pointwise)
  also have "\<dots> = sum_list (map f ts)
        + sum_list (map (\<lambda>u. if id_T u = id_T s then f (S s) - f s else 0) ts)"
    by (simp add: sum_list_addf)
  finally show ?thesis
    by (simp add: sum_list_at_id [OF ids src])
qed

lemma find_filter_neq:
  "\<not> P x \<Longrightarrow> find P (filter (\<lambda>a. a \<noteq> x) xs) = find P xs"
  by (induction xs) auto

lemma find_filter_only:
  "\<forall>a \<in> set xs. P a \<longrightarrow> a = x \<Longrightarrow> find P (filter (\<lambda>a. a \<noteq> x) xs) = None"
  by (induction xs) auto

lemma find_snoc:
  "find P (xs @ [y]) =
     (case find P xs of Some a \<Rightarrow> Some a | None \<Rightarrow> if P y then Some y else None)"
  by (induction xs) auto

lemma filter_singleton_only:
  assumes "filter P xs = [x]"
  shows "\<forall>a \<in> set xs. P a \<longrightarrow> a = x"
proof (intro ballI impI)
  fix a assume "a \<in> set xs" and "P a"
  then have "a \<in> set (filter P xs)" by simp
  with assms show "a = x" by simp
qed

lemma filter_singleton_find:
  "filter P xs = [x] \<Longrightarrow> find P xs = Some x"
proof (induction xs)
  case Nil
  then show ?case by simp
next
  case (Cons y ys)
  then show ?case by (cases "P y") auto
qed

lemma remove_by_courseId:
  assumes "filter (\<lambda>a. courseId a = courseId x) xs = [x]"
  shows "filter (\<lambda>a. courseId a \<noteq> courseId x) xs = filter (\<lambda>a. a \<noteq> x) xs"
proof (rule filter_cong [OF refl])
  fix a assume "a \<in> set xs"
  with filter_singleton_only [OF assms] show "(courseId a \<noteq> courseId x) = (a \<noteq> x)"
    by auto
qed

lemma cellLoad_enhance:
  "cellLoad G N (enhanceTeacherWithMetrics u) = cellLoad G N u"
  by (simp add: cellLoad_def findAssignment_def enhance_fields)

lemma cellLoad_remove:
  assumes only_id: "filter (\<lambda>a. courseId a = courseId x) (assignments u) = [x]"
    and only_cell: "filter (\<lambda>a. courseName a = courseName x \<and> courseGroup a = courseGroup x)
                       (assignments u) = [x]"
  shows "cellLoad G N (u\<lparr>assignments := filter (\<lambda>a. courseId a \<noteq> courseId x) (assignments u)\<rparr>)
         = cellLoad G N u - (if G = courseGroup x \<and> N = courseName x then load x else 0)"
proof (cases "G = courseGroup x \<and> N = courseName x")
  case True
  then have "find (\<lambda>a. courseName a = N \<and> courseGroup a = G) (filter (\<lambda>a. a \<noteq> x) (assignments u))
      = None"
    using find_filter_only [OF filter_singleton_only [OF only_cell]] by simp
  moreover have "find (\<lambda>a. courseName a = N \<and> courseGroup a = G) (assignments u) = Some x"
    using True filter_singleton_find [OF only_cell] by simp
  ultimately show ?thesis
    using True by (simp add: cellLoad_def findAssignment_def remove_by_courseId [OF only_id])
next
  case False
  then have "\<not> (courseName x = N \<and> courseGroup x = G)" by auto
  then have "find (\<lambda>a. courseName a = N \<and> courseGroup a = G) (filter (\<lambda>a. a \<noteq> x) (assignments u))
      = find (\<lambda>a. courseName a = N \<and> courseGroup a = G) (assignments u)"
    by (rule find_filter_neq)
  then show ?thesis
    using False by (auto simp: cellLoad_def findAssignment_def remove_by_courseId [OF only_id])
qed

lemma cellLoad_append:
  assumes "findAssignment (courseName y) (courseGroup y) u = None"
  shows "cellLoad G N (u\<lparr>assignments := assignments u @ [y]\<rparr>)
         = cellLoad G N u + (if G = courseGroup y \<and> N = courseName y then load y else 0)"
  using assms
  by (auto simp: cellLoad_def findAssignment_def find_snoc split: option.splits)

lemma cellLoad_relabel:
  assumes only_id: "filter (\<lambda>a. courseId a = courseId x) (assignments u) = [x]"
    and only_cell: "filter (\<lambda>a. courseName a = courseName x \<and> courseGroup a = courseGroup x)
                       (assignments u) = [x]"
    and empty_dst: "findAssignment N' (courseGroup x) u = None"
    and differ: "N' \<noteq> courseName x"
  shows "cellLoad G N (u\<lparr>assignments :=
            filter (\<lambda>a. courseId a \<noteq> courseId x) (assignments u) @ [x\<lparr>courseName := N'\<rparr>]\<rparr>)
         = cellLoad G N u - (if G = courseGroup x \<and> N = courseName x then load x else 0)
                          + (if G = courseGroup x \<and> N = N' then load x else 0)"
proof -
  let ?u' = "u\<lparr>assignments := filter (\<lambda>a. courseId a \<noteq> courseId x) (assignments u)\<rparr>"
  have "findAssignment N' (courseGroup x) ?u' = None"
    using empty_dst differ find_filter_neq [of "\<lambda>a. courseName a = N' \<and> courseGroup a = courseGroup x" x "assignments u"]
    by (simp add: findAssignment_def remove_by_courseId [OF only_id])
  then have "cellLoad G N (?u'\<lparr>assignments := assignments ?u' @ [x\<lparr>courseName := N'\<rparr>]\<rparr>)
      = cellLoad G N ?u' + (if G = courseGroup x \<and> N = N' then load x else 0)"
    using cellLoad_append [of "x\<lparr>courseName := N'\<rparr>" ?u' G N] by simp
  then show ?thesis
    by (simp add: cellLoad_remove [OF only_id only_cell])
qed

lemma filter_none_keeps_all:
  "filter P xs = [] \<Longrightarrow> filter (\<lambda>a. \<not> P a) xs = xs"
  by (induction xs) (auto split: if_splits)

lemma sum_list_without_single:
  fixes f :: "'a \<Rightarrow> int"
  assumes "filter P xs = [x]"
  shows "sum_list (map f (filter Q xs))
         = sum_list (map f (filter Q (filter (\<lambda>a. \<not> P a) xs))) + (if Q x then f x else 0)"
  using assms
proof (induction xs)
  case Nil
  then show ?case by simp
next
  case (Cons y ys)
  show ?case
  proof (cases "P y")
    case True
    with Cons.prems have "y = x" and "filter P ys = []" by simp_all
    then show ?thesis using True by (simp add: filter_none_keeps_all)
  next
    case False
    with Cons show ?thesis by simp
  qed
qed

lemma relabel_keeps_consumedLoad:
  assumes "filter (\<lambda>a. courseId a = courseId x) (assignments u) = [x]"
  shows "consumedLoad (u\<lparr>assignments :=
            filter (\<lambda>a. courseId a \<noteq> courseId x) (assignments u) @ [x\<lparr>courseName := N\<rparr>]\<rparr>)
         = consumedLoad u"
  using sum_list_without_single [OF assms, of load "\<lambda>a. \<not> isCPT a"]
  by (simp add: consumedLoad_sum)

section \<open>Column labels: the documented examples\<close>

text \<open>
  C3. The doc comment of the parser and the specification both give
  \<^verbatim>\<open>"CCW6_CCW_E_6"\<close> with group \<^verbatim>\<open>"CCW6"\<close> the label \<^verbatim>\<open>"CCW(E)6"\<close>. The id
  starts with the group prefix \<^verbatim>\<open>"CCW6_"\<close>, so the first branch answers and the
  label is \<^verbatim>\<open>"CCW E 6"\<close>; the second example, \<^verbatim>\<open>"OTHER_SUBJECTS_TOK"\<close>, does give
  \<^verbatim>\<open>"TOK"\<close>.
\<close>

theorem parseCourseName_documented_examples:
  "parseCourseNameFromColumnId ''CCW6_CCW_E_6'' ''CCW6'' = ''CCW E 6''
   \<and> parseCourseNameFromColumnId ''CCW6_CCW_E_6'' ''CCW6'' \<noteq> ''CCW(E)6''
   \<and> parseCourseNameFromColumnId ''OTHER_SUBJECTS_TOK'' ''OTHER_SUBJECTS'' = ''TOK''"
  by (simp add: parseCourseNameFromColumnId_def startsWith_def replaceUnderscores_def)

section \<open>Visible rows\<close>

text \<open>
  C8. \<^verbatim>\<open>visibleTeachers\<close> returns exactly the rows whose division is not collapsed:
  the same rows as a set, as a subsequence of the input (so in the input's relative
  order), and each kept row as often as it occurs in the input. The input list is a
  value and the result a new one: \<^verbatim>\<open>filter\<close> writes nothing back.
\<close>

theorem visibleTeachers_exact:
  "set (visibleTeachers ts c) = {t \<in> set ts. division t \<notin> set c}
   \<and> subseq (visibleTeachers ts c) ts
   \<and> count_list (visibleTeachers ts c) t
       = (if division t \<in> set c then 0 else count_list ts t)"
  by (auto simp: visibleTeachers_def includes_arr_set count_list_filter)

theorem visibleTeachers_exact_witness:
  "visibleTeachers [teacherA, teacherB, teacherD] [HS] = [teacherA, teacherD]
   \<and> set (visibleTeachers [teacherA, teacherB, teacherD] [HS])
       = {t \<in> set [teacherA, teacherB, teacherD]. division t \<notin> set [HS]}
   \<and> subseq (visibleTeachers [teacherA, teacherB, teacherD] [HS]) [teacherA, teacherB, teacherD]"
  using visibleTeachers_exact [of "[teacherA, teacherB, teacherD]" "[HS]" teacherA]
  by (simp add: visibleTeachers_def scenario_defs enhanceTeacherWithMetrics_def Let_def)

text \<open>
  C9. Collapsing a division that is not collapsed and expanding it again gives back the
  list of collapsed divisions, hence the same visible rows of an unchanged row list.
  Each toggle is applied to the state the previous one produced.
\<close>

theorem toggleDivision_round_trip:
  assumes "\<not> includes_arr (collapsedDivisions s) d"
  shows "collapsedDivisions (toggleDivision n2 d (toggleDivision n1 d s)) = collapsedDivisions s
         \<and> visibleTeachers ts (collapsedDivisions (toggleDivision n2 d (toggleDivision n1 d s)))
             = visibleTeachers ts (collapsedDivisions s)"
proof -
  from assms have notin: "d \<notin> set (collapsedDivisions s)"
    by (simp add: includes_arr_set)
  have "collapsedDivisions (toggleDivision n2 d (toggleDivision n1 d s)) = collapsedDivisions s"
    using assms notin
    by (simp add: toggleDivision_def Let_def includes_arr_append filter_neq_id)
  then show ?thesis by simp
qed

theorem toggleDivision_round_trip_witness:
  "\<not> includes_arr (collapsedDivisions uiState) MS
   \<and> collapsedDivisions (toggleDivision ''t2'' MS uiState) = [HS, MS]
   \<and> collapsedDivisions (toggleDivision ''t3'' MS (toggleDivision ''t2'' MS uiState)) = [HS]
   \<and> visibleTeachers [teacherA, teacherB]
        (collapsedDivisions (toggleDivision ''t3'' MS (toggleDivision ''t2'' MS uiState)))
       = visibleTeachers [teacherA, teacherB] (collapsedDivisions uiState)"
proof -
  have h: "\<not> includes_arr (collapsedDivisions uiState) MS"
    by (simp add: uiState_def)
  have mid: "collapsedDivisions (toggleDivision ''t2'' MS uiState) = [HS, MS]"
    by (simp add: uiState_def toggleDivision_def Let_def)
  from toggleDivision_round_trip [OF h, of "''t3''" "''t2''" "[teacherA, teacherB]"] h mid
  show ?thesis by (simp add: uiState_def)
qed

section \<open>Column totals\<close>

text \<open>
  C4, as the code has it. For a visible column whose totals key is not the key of
  another visible column, the load and student totals are the sums, over the visible
  rows, of the load and students of the row's cell: the first assignment of the row whose
  \<^verbatim>\<open>courseName\<close> is the column label and whose \<^verbatim>\<open>courseGroup\<close> is the group id, and
  nothing for a row without one. When no row holds more than one matching assignment
  this is the sum over every matching assignment. Other visible columns may share keys
  among themselves, as the two CLUBS columns of the witness do.
\<close>

theorem column_sums_first_match:
  assumes "(g, c) \<in> set (visibleColumns gs collapsed)"
    and "\<forall>(g', c') \<in> set (visibleColumns gs collapsed).
           totalsKey g' c' = totalsKey g c \<longrightarrow> (g', c') = (g, c)"
  shows "\<exists>tot. courseTotals (useSummaryCalculations vts gs collapsed) (totalsKey g c) = Some tot
      \<and> load_CT tot = sum_list (map (cellLoad (id_G g) (parseCourseNameFromColumnId c (id_G g))) vts)
      \<and> students_CT tot
          = sum_list (map (cellStudents (id_G g) (parseCourseNameFromColumnId c (id_G g))) vts)
      \<and> ((\<forall>t \<in> set vts. length (filter (\<lambda>a. courseName a = parseCourseNameFromColumnId c (id_G g)
                                            \<and> courseGroup a = id_G g) (assignments t)) \<le> 1)
          \<longrightarrow> load_CT tot = spec_loadSum vts (id_G g) (parseCourseNameFromColumnId c (id_G g))
            \<and> students_CT tot
                = spec_studentSum vts (id_G g) (parseCourseNameFromColumnId c (id_G g)))"
  using courseTotals_lookup [OF assms, of vts]
  by (simp add: columnTotals_load columnTotals_students cellLoad_spec cellStudents_spec)

theorem column_sums_first_match_witness:
  "(ccw6, ''CCW6_CCW6'') \<in> set (visibleColumns [ccw6, clubs] [])
   \<and> filter (\<lambda>(g', c'). totalsKey g' c' = totalsKey ccw6 ''CCW6_CCW6'')
        (visibleColumns [ccw6, clubs] []) = [(ccw6, ''CCW6_CCW6'')]
   \<and> \<not> distinct (map (\<lambda>(g, c). totalsKey g c) (visibleColumns [ccw6, clubs] []))
   \<and> length (filter (\<lambda>a. courseName a = ''CCW6'' \<and> courseGroup a = ''CCW6'')
         (assignments teacherA)) \<le> 1
   \<and> length (filter (\<lambda>a. courseName a = ''CCW6'' \<and> courseGroup a = ''CCW6'')
         (assignments teacherB)) \<le> 1
   \<and> map_option load_CT
        (courseTotals (useSummaryCalculations [teacherA, teacherB] [ccw6, clubs] []) ''CCW6-CCW6'')
       = Some 6
   \<and> map_option students_CT
        (courseTotals (useSummaryCalculations [teacherA, teacherB] [ccw6, clubs] []) ''CCW6-CCW6'')
       = Some 20
   \<and> spec_loadSum [teacherA, teacherB] ''CCW6'' ''CCW6'' = 6
   \<and> spec_studentSum [teacherA, teacherB] ''CCW6'' ''CCW6'' = 20"
proof -
  have h1: "(ccw6, ''CCW6_CCW6'') \<in> set (visibleColumns [ccw6, clubs] [])"
    by (simp add: scenario_columns)
  note h2 = unshared_key [OF scenario_unshared(1)]
  have gid: "id_G ccw6 = ''CCW6''"
    by (simp add: scenario_defs)
  have h3: "\<forall>t \<in> set [teacherA, teacherB].
         length (filter (\<lambda>a. courseName a = ''CCW6'' \<and> courseGroup a = ''CCW6'') (assignments t)) \<le> 1"
    by (simp add: scenario_teachers assignmentA_def mkAssignment_def)
  have spec: "spec_loadSum [teacherA, teacherB] ''CCW6'' ''CCW6'' = 6
      \<and> spec_studentSum [teacherA, teacherB] ''CCW6'' ''CCW6'' = 20"
    by (simp add: spec_loadSum_def spec_studentSum_def orZero_def scenario_teachers
          assignmentA_def mkAssignment_def)
  from column_sums_first_match [OF h1 h2, of "[teacherA, teacherB]"] h3 spec
  have "map_option load_CT
        (courseTotals (useSummaryCalculations [teacherA, teacherB] [ccw6, clubs] []) ''CCW6-CCW6'')
       = Some 6
     \<and> map_option students_CT
        (courseTotals (useSummaryCalculations [teacherA, teacherB] [ccw6, clubs] []) ''CCW6-CCW6'')
       = Some 20"
    by (auto simp: scenario_keys gid label_simps)
  with h1 h3 spec scenario_unshared(1,3) show ?thesis by simp
qed

text \<open>
  C4 as stated fails on a row with two matching assignments: teacher D holds the CCW6
  course twice, with loads 6 and 3 and 20 and 10 students. The aggregation counts the
  first only.
\<close>

theorem column_sums_every_assignment_counterexample:
  "map_option load_CT
     (courseTotals (useSummaryCalculations [teacherD] [ccw6, ccw7] []) ''CCW6-CCW6'') = Some 6
   \<and> spec_loadSum [teacherD] ''CCW6'' ''CCW6'' = 9
   \<and> map_option students_CT
     (courseTotals (useSummaryCalculations [teacherD] [ccw6, ccw7] []) ''CCW6-CCW6'') = Some 20
   \<and> spec_studentSum [teacherD] ''CCW6'' ''CCW6'' = 30"
  by (simp add: useSummaryCalculations_def columnTotals_def accumulateTeacher_def
        findAssignment_def findMetadata_def totalsKey_def columnList_def
        parseCourseNameFromColumnId_def startsWith_def replaceUnderscores_def
        spec_loadSum_def spec_studentSum_def orZero_def scenario_defs
        enhanceTeacherWithMetrics_def Let_def)

text \<open>
  C7, as the code has it. For a visible column whose totals key is not the key of
  another visible column, \<^verbatim>\<open>remaining\<close> is the catalog periods-per-cycle figure minus
  the column's load total when the column has a catalog entry with a positive figure,
  and 0 when it has no entry or the figure is not positive. Other visible columns may
  share keys among themselves.
\<close>

theorem column_remaining_positive_capacity:
  assumes "(g, c) \<in> set (visibleColumns gs collapsed)"
    and "\<forall>(g', c') \<in> set (visibleColumns gs collapsed).
           totalsKey g' c' = totalsKey g c \<longrightarrow> (g', c') = (g, c)"
  shows "\<exists>tot. courseTotals (useSummaryCalculations vts gs collapsed) (totalsKey g c) = Some tot
      \<and> remaining tot =
          (case findMetadata g c of
             None \<Rightarrow> 0
           | Some m \<Rightarrow> if periodsPerCycle m > 0 then periodsPerCycle m - load_CT tot else 0)"
  using courseTotals_lookup [OF assms, of vts]
  by (simp add: columnTotals_remaining)

theorem column_remaining_positive_capacity_witness:
  "(ccw6, ''CCW6_CCW_E_6'') \<in> set (visibleColumns [ccw6, clubs] [])
   \<and> filter (\<lambda>(g', c'). totalsKey g' c' = totalsKey ccw6 ''CCW6_CCW_E_6'')
        (visibleColumns [ccw6, clubs] []) = [(ccw6, ''CCW6_CCW_E_6'')]
   \<and> \<not> distinct (map (\<lambda>(g, c). totalsKey g c) (visibleColumns [ccw6, clubs] []))
   \<and> map_option periodsPerCycle (findMetadata ccw6 ''CCW6_CCW_E_6'') = Some 12
   \<and> (\<exists>tot. courseTotals (useSummaryCalculations [teacherA, teacherB] [ccw6, clubs] [])
               (totalsKey ccw6 ''CCW6_CCW_E_6'') = Some tot
         \<and> remaining tot = 12 - load_CT tot)"
proof -
  have h1: "(ccw6, ''CCW6_CCW_E_6'') \<in> set (visibleColumns [ccw6, clubs] [])"
    by (simp add: scenario_columns)
  note h2 = unshared_key [OF scenario_unshared(2)]
  have meta: "findMetadata ccw6 ''CCW6_CCW_E_6''
      = Some \<lparr>columnId = ''CCW6_CCW_E_6'', totalSections = 2, periodsPerCycle = 12,
              remainingPeriod = 0, studentsPerSection = 20\<rparr>"
    by (simp add: findMetadata_def scenario_defs)
  from column_remaining_positive_capacity [OF h1 h2, of "[teacherA, teacherB]"]
  have "\<exists>tot. courseTotals (useSummaryCalculations [teacherA, teacherB] [ccw6, clubs] [])
               (totalsKey ccw6 ''CCW6_CCW_E_6'') = Some tot
         \<and> remaining tot = 12 - load_CT tot"
    by (simp add: meta)
  with h1 scenario_unshared(2,3) meta show ?thesis by simp
qed

text \<open>
  C7 as stated fails for a catalog figure of 0: column \<^verbatim>\<open>CCW6_CCW6\<close> has the figure
  0 and teacher A carries load 6 there; the aggregation reports 0 remaining, not
  \<open>0 - 6\<close>.
\<close>

theorem column_remaining_zero_figure_counterexample:
  "map_option periodsPerCycle (findMetadata ccw6 ''CCW6_CCW6'') = Some 0
   \<and> map_option load_CT
       (courseTotals (useSummaryCalculations [teacherA] [ccw6, ccw7] []) ''CCW6-CCW6'') = Some 6
   \<and> map_option remaining
       (courseTotals (useSummaryCalculations [teacherA] [ccw6, ccw7] []) ''CCW6-CCW6'') = Some 0
   \<and> (0::int) \<noteq> 0 - 6"
  by (simp add: useSummaryCalculations_def columnTotals_def accumulateTeacher_def
        findAssignment_def findMetadata_def totalsKey_def columnList_def
        parseCourseNameFromColumnId_def startsWith_def replaceUnderscores_def
        orZero_def scenario_defs enhanceTeacherWithMetrics_def Let_def)

section \<open>Relocation: rejection and acceptance\<close>

text \<open>
  C2. A drag from a grid cell released over a cell of a column whose group is not the
  group of the dragged assignment is answered with the error toast
  \<^verbatim>\<open>Invalid drop\<close>; \<^verbatim>\<open>onAssignmentUpdate\<close> is not called and the teacher list stays as
  it is. The witness is the move of \<^verbatim>\<open>CCW6_A\<close> of group \<^verbatim>\<open>CCW6\<close> to a column of
  group \<^verbatim>\<open>CCW7\<close>.
\<close>

theorem cross_group_relocation_rejected:
  assumes "dragEnd (gridCell s g c) (gridCell t g' c') = Some ev"
    and "id_G g' \<noteq> courseGroup (assignment_drag (active_data ev))"
  shows "handleDragEnd ts ev =
           ToastError ''Invalid drop'' ''Cannot drop assignment to a different course group''
         \<and> relocate ts ev = ts"
proof -
  from assms(2) dragEnd_moved(2) [OF assms(1)] have "id_G g' \<noteq> id_G g"
    by simp
  from handleDragEnd_cross_group [OF assms(1) this, of ts]
  show ?thesis by (simp add: relocate_def)
qed

theorem cross_group_relocation_rejected_witness:
  "dragEnd (gridCell teacherA ccw6 ''CCW6_CCW6'') (gridCell teacherB ccw7 ''CCW7_CCW7'')
     = Some evCrossGroup
   \<and> courseId (assignment_drag (active_data evCrossGroup)) = ''CCW6_A''
   \<and> courseGroup (assignment_drag (active_data evCrossGroup)) = ''CCW6''
   \<and> id_G ccw7 = ''CCW7''
   \<and> handleDragEnd [teacherA, teacherB] evCrossGroup =
        ToastError ''Invalid drop'' ''Cannot drop assignment to a different course group''
   \<and> relocate [teacherA, teacherB] evCrossGroup = [teacherA, teacherB]"
proof -
  have facts: "courseId (assignment_drag (active_data evCrossGroup)) = ''CCW6_A''
      \<and> courseGroup (assignment_drag (active_data evCrossGroup)) = ''CCW6''
      \<and> id_G ccw7 = ''CCW7''"
    by (simp add: event_defs assignmentA_def mkAssignment_def ccw7_def mkGroup_def)
  then have h: "id_G ccw7 \<noteq> courseGroup (assignment_drag (active_data evCrossGroup))"
    by simp
  from cross_group_relocation_rejected [OF scenario_events(1) h, of "[teacherA, teacherB]"]
    facts scenario_events(1)
  show ?thesis by simp
qed

text \<open>
  C10. An accepted move to another teacher returns, for the source, the source list
  without every assignment that has the moved assignment's \<^verbatim>\<open>courseId\<close>, and for the
  target its list with one assignment appended. With \<open>n\<close> assignments of that
  \<^verbatim>\<open>courseId\<close> on the source (the moved one among them), the two lists together are
  shorter by \<open>n - 1\<close>.
\<close>

theorem cross_staff_removes_every_same_courseId:
  assumes ev: "dragEnd (gridCell s g c) (gridCell t g' c') = Some ev"
    and grp: "id_G g' = id_G g"
    and ids: "distinct (map id_T ts)"
    and src: "s \<in> set ts"
    and tgt: "t \<in> set ts"
    and other: "id_T s \<noteq> id_T t"
  shows "handleDragEnd ts ev =
           AssignmentUpdate (id_T s)
             (filter (\<lambda>a. courseId a \<noteq> courseId (assignment_drag (active_data ev)))
                     (assignments s))
             (Some [(id_T t, assignments t @
                [(assignment_drag (active_data ev))
                   \<lparr>courseName := parseCourseNameFromColumnId c' (id_G g')\<rparr>])])
     \<and> int (length (filter (\<lambda>a. courseId a \<noteq> courseId (assignment_drag (active_data ev)))
                            (assignments s)))
         + int (length (assignments t @
                [(assignment_drag (active_data ev))
                   \<lparr>courseName := parseCourseNameFromColumnId c' (id_G g')\<rparr>]))
       = int (length (assignments s)) + int (length (assignments t))
         - (int (length (filter (\<lambda>a. courseId a = courseId (assignment_drag (active_data ev)))
                                (assignments s))) - 1)
     \<and> 1 \<le> length (filter (\<lambda>a. courseId a = courseId (assignment_drag (active_data ev)))
                          (assignments s))"
proof -
  let ?x = "assignment_drag (active_data ev)"
  have out: "handleDragEnd ts ev =
           AssignmentUpdate (id_T s)
             (filter (\<lambda>a. courseId a \<noteq> courseId ?x) (assignments s))
             (Some [(id_T t, assignments t @
                [?x\<lparr>courseName := parseCourseNameFromColumnId c' (id_G g')\<rparr>])])"
    using handleDragEnd_accepted [OF ev grp find_by_id [OF ids src] find_by_id [OF ids tgt]]
      other
    by simp
  have "length (filter (\<lambda>a. courseId a = courseId ?x) (assignments s))
        + length (filter (\<lambda>a. courseId a \<noteq> courseId ?x) (assignments s))
        = length (assignments s)"
    using sum_length_filter_compl [of "\<lambda>a. courseId a = courseId ?x" "assignments s"]
    by simp
  then have count: "int (length (filter (\<lambda>a. courseId a \<noteq> courseId ?x) (assignments s)))
        = int (length (assignments s))
          - int (length (filter (\<lambda>a. courseId a = courseId ?x) (assignments s)))"
    by linarith
  have "?x \<in> set (filter (\<lambda>a. courseId a = courseId ?x) (assignments s))"
    using dragEnd_moved(3) [OF ev] by simp
  then have "filter (\<lambda>a. courseId a = courseId ?x) (assignments s) \<noteq> []"
    by (metis empty_iff empty_set)
  then have one: "1 \<le> length (filter (\<lambda>a. courseId a = courseId ?x) (assignments s))"
    by (simp add: Suc_le_eq)
  from out count one show ?thesis by simp
qed

theorem cross_staff_removes_every_same_courseId_witness:
  "dragEnd (gridCell teacherD ccw6 ''CCW6_CCW6'') (gridCell teacherB ccw6 ''CCW6_CCW6'')
     = Some evDuplicate
   \<and> length (assignments teacherD) = 2
   \<and> length (filter (\<lambda>a. courseId a = ''CCW6_A'') (assignments teacherD)) = 2
   \<and> handleDragEnd [teacherD, teacherB] evDuplicate =
        AssignmentUpdate ''D'' [] (Some [(''B'', [assignmentA])])"
proof -
  have ids: "distinct (map id_T [teacherD, teacherB])"
    and src: "teacherD \<in> set [teacherD, teacherB]"
    and tgt: "teacherB \<in> set [teacherD, teacherB]"
    and other: "id_T teacherD \<noteq> id_T teacherB"
    by (simp_all add: scenario_teachers)
  have x: "assignment_drag (active_data evDuplicate) = assignmentA"
    by (simp add: event_defs)
  have lists: "length (assignments teacherD) = 2
      \<and> length (filter (\<lambda>a. courseId a = ''CCW6_A'') (assignments teacherD)) = 2
      \<and> filter (\<lambda>a. courseId a \<noteq> ''CCW6_A'') (assignments teacherD) = []"
    by (simp add: scenario_teachers assignmentA_def mkAssignment_def)
  have relabel: "assignmentA\<lparr>courseName := ''CCW6''\<rparr> = assignmentA"
    by (simp add: assignmentA_def mkAssignment_def)
  from cross_staff_removes_every_same_courseId [OF scenario_events(4) refl ids src tgt other]
  have "handleDragEnd [teacherD, teacherB] evDuplicate =
        AssignmentUpdate ''D'' [] (Some [(''B'', [assignmentA])])"
    using lists relabel
    by (simp add: x scenario_teachers ccw6_def mkGroup_def label_simps assignmentA_def
          mkAssignment_def)
  with scenario_events(4) lists show ?thesis by simp
qed

text \<open>
  C5. A drag between grid cells of the same group that are not the same cell always ends
  in a call of \<^verbatim>\<open>onAssignmentUpdate\<close>; the outcome is the same whatever the teachers'
  \<^verbatim>\<open>maxLoad\<close> values are; and after a move to another teacher the target's
  \<^verbatim>\<open>availablePeriods\<close> is its \<^verbatim>\<open>maxLoad\<close> minus its former consumed load minus the
  moved load (nothing for a CPT assignment), with no lower bound. In the witness the
  target ends with \<open>-2\<close> available periods.
\<close>

theorem relocation_ignores_capacity:
  assumes ev: "dragEnd (gridCell s g c) (gridCell t g' c') = Some ev"
    and grp: "id_G g' = id_G g"
    and ids: "distinct (map id_T ts)"
    and src: "s \<in> set ts"
    and tgt: "t \<in> set ts"
    and cell: "\<not> (id_T s = id_T t \<and>
          parseCourseNameFromColumnId c (id_G g) = parseCourseNameFromColumnId c' (id_G g'))"
  shows "(\<exists>tid lst adds. handleDragEnd ts ev = AssignmentUpdate tid lst adds)
     \<and> handleDragEnd (map (\<lambda>u. u\<lparr>maxLoad := m u\<rparr>) ts) ev = handleDragEnd ts ev
     \<and> (id_T s \<noteq> id_T t \<longrightarrow>
          (\<exists>t'. t' \<in> set (relocate ts ev) \<and> id_T t' = id_T t
             \<and> availablePeriods t'
                 = Some (maxLoad t - consumedLoad t
                         - (if isCPT (assignment_drag (active_data ev)) then 0
                            else load (assignment_drag (active_data ev))))))"
proof -
  let ?x = "assignment_drag (active_data ev)"
  let ?moved = "?x\<lparr>courseName := parseCourseNameFromColumnId c' (id_G g')\<rparr>"
  let ?keep = "filter (\<lambda>a. courseId a \<noteq> courseId ?x) (assignments s)"
  note out = handleDragEnd_accepted [OF ev grp find_by_id [OF ids src] find_by_id [OF ids tgt] cell]
  have accepted: "\<exists>tid lst adds. handleDragEnd ts ev = AssignmentUpdate tid lst adds"
    using out by (cases "id_T s = id_T t") simp_all
  have target: "\<exists>t'. t' \<in> set (relocate ts ev) \<and> id_T t' = id_T t
             \<and> availablePeriods t'
                 = Some (maxLoad t - consumedLoad t - (if isCPT ?x then 0 else load ?x))"
    if other: "id_T s \<noteq> id_T t"
  proof -
    let ?t' = "enhanceTeacherWithMetrics (t\<lparr>assignments := assignments t @ [?moved]\<rparr>)"
    define upd where "upd = (\<lambda>u. if id_T u = id_T t
                 then enhanceTeacherWithMetrics (u\<lparr>assignments := assignments t @ [?moved]\<rparr>)
                 else if id_T u = id_T s
                 then enhanceTeacherWithMetrics (u\<lparr>assignments := ?keep\<rparr>)
                 else u)"
    have rel: "relocate ts ev = map upd ts"
      using out other by (simp add: relocate_def handleAssignmentUpdate_two upd_def)
    have "upd t = ?t'"
      by (simp add: upd_def)
    with tgt have "?t' \<in> upd ` set ts"
      by (metis imageI)
    then have "?t' \<in> set (relocate ts ev)"
      by (simp add: rel)
    moreover have "id_T ?t' = id_T t"
      by (simp add: enhance_fields)
    moreover have "availablePeriods ?t'
        = Some (maxLoad t - consumedLoad t - (if isCPT ?x then 0 else load ?x))"
      using consumedLoad_append [of t ?moved] by (simp add: enhance_fields)
    ultimately show ?thesis by blast
  qed
  from accepted handleDragEnd_maxLoad [of m ts ev] target show ?thesis by blast
qed

theorem relocation_ignores_capacity_witness:
  "dragEnd (gridCell teacherA ccw6 ''CCW6_CCW6'') (gridCell teacherB ccw6 ''CCW6_CCW6'')
     = Some evMove
   \<and> maxLoad teacherB = 4 \<and> consumedLoad teacherB = 0
   \<and> load (assignment_drag (active_data evMove)) = 6
   \<and> (\<exists>tid lst adds. handleDragEnd [teacherA, teacherB] evMove = AssignmentUpdate tid lst adds)
   \<and> handleDragEnd (map (\<lambda>u. u\<lparr>maxLoad := 0\<rparr>) [teacherA, teacherB]) evMove
       = handleDragEnd [teacherA, teacherB] evMove
   \<and> (\<exists>t'. t' \<in> set (relocate [teacherA, teacherB] evMove) \<and> id_T t' = ''B''
         \<and> availablePeriods t' = Some (- 2))"
proof -
  have ids: "distinct (map id_T [teacherA, teacherB])"
    and src: "teacherA \<in> set [teacherA, teacherB]"
    and tgt: "teacherB \<in> set [teacherA, teacherB]"
    and other: "id_T teacherA \<noteq> id_T teacherB"
    by (simp_all add: scenario_teachers)
  from other have cell: "\<not> (id_T teacherA = id_T teacherB \<and>
      parseCourseNameFromColumnId ''CCW6_CCW6'' (id_G ccw6)
        = parseCourseNameFromColumnId ''CCW6_CCW6'' (id_G ccw6))"
    by simp
  have nums: "maxLoad teacherB = 4 \<and> consumedLoad teacherB = 0
      \<and> load (assignment_drag (active_data evMove)) = 6
      \<and> \<not> isCPT (assignment_drag (active_data evMove)) \<and> id_T teacherB = ''B''"
    by (simp add: consumedLoad_sum scenario_teachers event_defs assignmentA_def mkAssignment_def)
  from relocation_ignores_capacity [OF scenario_events(2) refl ids src tgt cell, of "\<lambda>u. 0"]
    other nums scenario_events(2)
  show ?thesis by simp
qed

section \<open>Relocation: the load of the columns\<close>

text \<open>
  C1, as the code has it. Take an accepted drag between two cells of the same group,
  both on visible rows of a teacher list with distinct ids, where the moved assignment
  is the only one of its \<^verbatim>\<open>courseId\<close> and the only one of its cell on the source row,
  and the target cell is empty. Then the load total of every column after the update
  is the total before, less the moved load if the column is the source column, plus the
  moved load if the column is the target column: unchanged for a move within one
  column, shifted from the source column to the target column otherwise. When the
  source held just the moved assignment and the target none, the source is left with
  no assignment and the target with one.
\<close>

theorem relocation_moves_load_between_columns:
  assumes ev: "dragEnd (gridCell s g c) (gridCell t g' c') = Some ev"
    and grp: "id_G g' = id_G g"
    and ids: "distinct (map id_T ts)"
    and src: "s \<in> set ts"
    and tgt: "t \<in> set ts"
    and vis_s: "\<not> includes_arr collapsed (division s)"
    and vis_t: "\<not> includes_arr collapsed (division t)"
    and cell: "\<not> (id_T s = id_T t \<and>
          parseCourseNameFromColumnId c (id_G g) = parseCourseNameFromColumnId c' (id_G g'))"
    and only_id: "filter (\<lambda>a. courseId a = courseId (assignment_drag (active_data ev)))
                     (assignments s) = [assignment_drag (active_data ev)]"
    and only_cell: "filter (\<lambda>a. courseName a = parseCourseNameFromColumnId c (id_G g)
                              \<and> courseGroup a = id_G g)
                     (assignments s) = [assignment_drag (active_data ev)]"
    and empty_dst: "assignment_cell (gridCell t g' c') = None"
  shows "load_CT (columnTotals (visibleTeachers (relocate ts ev) collapsed) G C)
           = load_CT (columnTotals (visibleTeachers ts collapsed) G C)
             - (if id_G G = id_G g \<and> parseCourseNameFromColumnId C (id_G G)
                                     = parseCourseNameFromColumnId c (id_G g)
                then load (assignment_drag (active_data ev)) else 0)
             + (if id_G G = id_G g \<and> parseCourseNameFromColumnId C (id_G G)
                                     = parseCourseNameFromColumnId c' (id_G g')
                then load (assignment_drag (active_data ev)) else 0)
     \<and> (assignments s = [assignment_drag (active_data ev)] \<and> assignments t = []
          \<longrightarrow> handleDragEnd ts ev =
                AssignmentUpdate (id_T s) []
                  (Some [(id_T t, [(assignment_drag (active_data ev))
                      \<lparr>courseName := parseCourseNameFromColumnId c' (id_G g')\<rparr>])]))"
proof -
  let ?x = "assignment_drag (active_data ev)"
  let ?N = "parseCourseNameFromColumnId c (id_G g)"
  let ?N' = "parseCourseNameFromColumnId c' (id_G g')"
  let ?moved = "?x\<lparr>courseName := ?N'\<rparr>"
  let ?keep = "filter (\<lambda>a. courseId a \<noteq> courseId ?x) (assignments s)"
  let ?vis = "visibleTeachers ts collapsed"
  let ?f = "cellLoad (id_G G) (parseCourseNameFromColumnId C (id_G G))"
  note xN = dragEnd_moved(1) [OF ev] and xG = dragEnd_moved(2) [OF ev]
  from only_cell xN xG
  have only_cell': "filter (\<lambda>a. courseName a = courseName ?x \<and> courseGroup a = courseGroup ?x)
                      (assignments s) = [?x]"
    by simp
  from empty_dst grp xG have empty': "findAssignment ?N' (courseGroup ?x) t = None"
    by (simp add: gridCell_def Let_def)
  note out = handleDragEnd_accepted [OF ev grp find_by_id [OF ids src] find_by_id [OF ids tgt] cell]
  have vids: "distinct (map id_T ?vis)"
    using ids by (simp add: visibleTeachers_def distinct_map_filter)
  have vsrc: "s \<in> set ?vis" and vtgt: "t \<in> set ?vis"
    using src tgt vis_s vis_t by (simp_all add: visibleTeachers_def)
  have totals: "load_CT (columnTotals (visibleTeachers (relocate ts ev) collapsed) G C)
           = load_CT (columnTotals ?vis G C)
             - (if id_G G = id_G g \<and> parseCourseNameFromColumnId C (id_G G) = ?N
                then load ?x else 0)
             + (if id_G G = id_G g \<and> parseCourseNameFromColumnId C (id_G G) = ?N'
                then load ?x else 0)"
  proof (cases "id_T s = id_T t")
    case True
    then have st: "t = s"
      using same_id_same_teacher [OF ids tgt src] by simp
    from True cell have differ: "?N' \<noteq> courseName ?x"
      using xN by auto
    let ?S = "\<lambda>u. enhanceTeacherWithMetrics (u\<lparr>assignments := ?keep @ [?moved]\<rparr>)"
    have rel: "relocate ts ev = map (\<lambda>u. if id_T u = id_T s then ?S u else u) ts"
      using out True by (simp add: relocate_def handleAssignmentUpdate_one)
    have "visibleTeachers (relocate ts ev) collapsed
        = map (\<lambda>u. if id_T u = id_T s then ?S u else u) ?vis"
      unfolding rel by (rule visibleTeachers_map) (simp add: enhance_fields)
    then have "sum_list (map ?f (visibleTeachers (relocate ts ev) collapsed))
        = sum_list (map ?f ?vis) + (?f (?S s) - ?f s)"
      using sum_list_update_one [OF vids vsrc, of ?f ?S] by simp
    moreover have "?f (?S s) = ?f s
        - (if id_G G = courseGroup ?x \<and> parseCourseNameFromColumnId C (id_G G) = courseName ?x
           then load ?x else 0)
        + (if id_G G = courseGroup ?x \<and> parseCourseNameFromColumnId C (id_G G) = ?N'
           then load ?x else 0)"
      using cellLoad_relabel [OF only_id only_cell' _ differ, of "id_G G"
          "parseCourseNameFromColumnId C (id_G G)"] empty' st
      by (simp add: cellLoad_enhance)
    ultimately show ?thesis
      by (simp add: columnTotals_load xN xG)
  next
    case False
    let ?S = "\<lambda>u. enhanceTeacherWithMetrics (u\<lparr>assignments := ?keep\<rparr>)"
    let ?T = "\<lambda>u. enhanceTeacherWithMetrics (u\<lparr>assignments := assignments t @ [?moved]\<rparr>)"
    have rel: "relocate ts ev =
        map (\<lambda>u. if id_T u = id_T t then ?T u else if id_T u = id_T s then ?S u else u) ts"
      using out False by (simp add: relocate_def handleAssignmentUpdate_two)
    have "visibleTeachers (relocate ts ev) collapsed
        = map (\<lambda>u. if id_T u = id_T t then ?T u else if id_T u = id_T s then ?S u else u) ?vis"
      unfolding rel by (rule visibleTeachers_map) (simp add: enhance_fields)
    then have "sum_list (map ?f (visibleTeachers (relocate ts ev) collapsed))
        = sum_list (map ?f ?vis) + (?f (?T t) - ?f t) + (?f (?S s) - ?f s)"
      using sum_list_update_two [OF vids vsrc vtgt False, of ?f ?T ?S] by simp
    moreover have "?f (?S s) = ?f s
        - (if id_G G = courseGroup ?x \<and> parseCourseNameFromColumnId C (id_G G) = courseName ?x
           then load ?x else 0)"
      using cellLoad_remove [OF only_id only_cell', of "id_G G"
          "parseCourseNameFromColumnId C (id_G G)"]
      by (simp add: cellLoad_enhance)
    moreover have "?f (?T t) = ?f t
        + (if id_G G = courseGroup ?x \<and> parseCourseNameFromColumnId C (id_G G) = ?N'
           then load ?x else 0)"
      using cellLoad_append [of ?moved t "id_G G" "parseCourseNameFromColumnId C (id_G G)"] empty'
      by (auto simp: cellLoad_enhance)
    ultimately show ?thesis
      by (simp add: columnTotals_load xN xG)
  qed
  have scenario: "handleDragEnd ts ev =
        AssignmentUpdate (id_T s) [] (Some [(id_T t, [?moved])])"
    if one: "assignments s = [?x]" and none: "assignments t = []"
  proof -
    from one none have "s \<noteq> t" by auto
    then have "id_T s \<noteq> id_T t"
      using same_id_same_teacher [OF ids src tgt] by blast
    with out one none show ?thesis by simp
  qed
  from totals scenario show ?thesis by blast
qed

theorem relocation_moves_load_between_columns_witness:
  "dragEnd (gridCell teacherA ccw6 ''CCW6_CCW6'') (gridCell teacherB ccw6 ''CCW6_CCW6'')
     = Some evMove
   \<and> assignments teacherA = [assignmentA] \<and> assignments teacherB = []
   \<and> load_CT (columnTotals (visibleTeachers [teacherA, teacherB] []) ccw6 ''CCW6_CCW6'') = 6
   \<and> load_CT (columnTotals (visibleTeachers (relocate [teacherA, teacherB] evMove) [])
        ccw6 ''CCW6_CCW6'') = 6
   \<and> handleDragEnd [teacherA, teacherB] evMove
       = AssignmentUpdate ''A'' [] (Some [(''B'', [assignmentA])])"
proof -
  have ids: "distinct (map id_T [teacherA, teacherB])"
    and src: "teacherA \<in> set [teacherA, teacherB]"
    and tgt: "teacherB \<in> set [teacherA, teacherB]"
    and other: "id_T teacherA \<noteq> id_T teacherB"
    and vis_s: "\<not> includes_arr [] (division teacherA)"
    and vis_t: "\<not> includes_arr [] (division teacherB)"
    by (simp_all add: scenario_teachers)
  from other have cell: "\<not> (id_T teacherA = id_T teacherB \<and>
      parseCourseNameFromColumnId ''CCW6_CCW6'' (id_G ccw6)
        = parseCourseNameFromColumnId ''CCW6_CCW6'' (id_G ccw6))"
    by simp
  have x: "assignment_drag (active_data evMove) = assignmentA"
    by (simp add: event_defs)
  have gid: "id_G ccw6 = ''CCW6''"
    by (simp add: ccw6_def mkGroup_def)
  have lists: "assignments teacherA = [assignmentA] \<and> assignments teacherB = []"
    by (simp add: scenario_teachers)
  have only_id: "filter (\<lambda>a. courseId a = courseId (assignment_drag (active_data evMove)))
                     (assignments teacherA) = [assignment_drag (active_data evMove)]"
    by (simp add: x lists)
  have only_cell: "filter (\<lambda>a. courseName a = parseCourseNameFromColumnId ''CCW6_CCW6'' (id_G ccw6)
                              \<and> courseGroup a = id_G ccw6)
                     (assignments teacherA) = [assignment_drag (active_data evMove)]"
    by (simp add: x lists gid label_simps assignmentA_def mkAssignment_def)
  have empty_dst: "assignment_cell (gridCell teacherB ccw6 ''CCW6_CCW6'') = None"
    by (simp add: gridCell_def findAssignment_def lists Let_def)
  have before: "load_CT (columnTotals (visibleTeachers [teacherA, teacherB] []) ccw6 ''CCW6_CCW6'') = 6"
    by (simp add: columnTotals_load visibleTeachers_def cellLoad_def findAssignment_def lists gid
          label_simps assignmentA_def mkAssignment_def)
  have relabel: "assignmentA\<lparr>courseName := ''CCW6''\<rparr> = assignmentA"
    by (simp add: assignmentA_def mkAssignment_def)
  have ld: "load assignmentA = 6" and idA: "id_T teacherA = ''A''" and idB: "id_T teacherB = ''B''"
    by (simp_all add: assignmentA_def mkAssignment_def scenario_teachers)
  from relocation_moves_load_between_columns
         [OF scenario_events(2) refl ids src tgt vis_s vis_t cell only_id only_cell empty_dst,
          of ccw6 "''CCW6_CCW6''"]
  have "load_CT (columnTotals (visibleTeachers (relocate [teacherA, teacherB] evMove) [])
        ccw6 ''CCW6_CCW6'') = 6
     \<and> handleDragEnd [teacherA, teacherB] evMove
       = AssignmentUpdate ''A'' [] (Some [(''B'', [assignmentA])])"
    by (simp add: x lists before gid label_simps relabel ld idA idB)
  with scenario_events(2) lists before show ?thesis by simp
qed

text \<open>
  C1 as stated fails for an accepted move to another column of the group: teacher A's
  assignment of column \<^verbatim>\<open>CCW6\<close> is dropped on teacher B's empty cell of column
  \<^verbatim>\<open>CCW E 6\<close>. The load total of column \<^verbatim>\<open>CCW6\<close> is 6 before and 0 after, that of
  column \<^verbatim>\<open>CCW E 6\<close> 0 before and 6 after.
\<close>

theorem relocation_column_load_counterexample:
  "dragEnd (gridCell teacherA ccw6 ''CCW6_CCW6'') (gridCell teacherB ccw6 ''CCW6_CCW_E_6'')
     = Some evShift
   \<and> handleDragEnd [teacherA, teacherB] evShift
       = AssignmentUpdate ''A'' []
           (Some [(''B'', [assignmentA\<lparr>courseName := ''CCW E 6''\<rparr>])])
   \<and> load_CT (columnTotals (visibleTeachers [teacherA, teacherB] []) ccw6 ''CCW6_CCW6'') = 6
   \<and> load_CT (columnTotals (visibleTeachers (relocate [teacherA, teacherB] evShift) [])
        ccw6 ''CCW6_CCW6'') = 0
   \<and> load_CT (columnTotals (visibleTeachers [teacherA, teacherB] []) ccw6 ''CCW6_CCW_E_6'') = 0
   \<and> load_CT (columnTotals (visibleTeachers (relocate [teacherA, teacherB] evShift) [])
        ccw6 ''CCW6_CCW_E_6'') = 6"
proof -
  have out: "handleDragEnd [teacherA, teacherB] evShift
       = AssignmentUpdate ''A'' []
           (Some [(''B'', [assignmentA\<lparr>courseName := ''CCW E 6''\<rparr>])])"
    by (simp add: handleDragEnd_def scenario_teachers event_defs assignmentA_def
          mkAssignment_def Let_def)
  have gid: "id_G ccw6 = ''CCW6''"
    by (simp add: ccw6_def mkGroup_def)
  have rel: "map assignments (relocate [teacherA, teacherB] evShift)
       = [[], [assignmentA\<lparr>courseName := ''CCW E 6''\<rparr>]]"
    unfolding relocate_def out
    by (simp add: handleAssignmentUpdate_two scenario_teachers enhance_fields)
  have cells: "sum_list (map (cellLoad G N) us)
      = sum_list (map (\<lambda>l. case find (\<lambda>a. courseName a = N \<and> courseGroup a = G) l of
                              None \<Rightarrow> 0 | Some a \<Rightarrow> load a) (map assignments us))" for G N us
    by (induction us) (simp_all add: cellLoad_def findAssignment_def)
  have "load_CT (columnTotals (visibleTeachers [teacherA, teacherB] []) ccw6 ''CCW6_CCW6'') = 6
      \<and> load_CT (columnTotals (visibleTeachers [teacherA, teacherB] []) ccw6 ''CCW6_CCW_E_6'') = 0"
    by (simp add: columnTotals_load visibleTeachers_def cellLoad_def findAssignment_def
          scenario_teachers gid label_simps assignmentA_def mkAssignment_def)
  moreover have "load_CT (columnTotals (visibleTeachers (relocate [teacherA, teacherB] evShift) [])
        ccw6 ''CCW6_CCW6'') = 0
      \<and> load_CT (columnTotals (visibleTeachers (relocate [teacherA, teacherB] evShift) [])
        ccw6 ''CCW6_CCW_E_6'') = 6"
    by (simp add: columnTotals_load visibleTeachers_def filter_id_conv cells rel gid label_simps
          assignmentA_def mkAssignment_def)
  ultimately show ?thesis
    using scenario_events(3) out by simp
qed

text \<open>
  C6 on a row that holds the moved course twice. Teacher D has two assignments with
  \<^verbatim>\<open>courseId\<close> \<^verbatim>\<open>CCW6_A\<close>, of load 6 and 3. Dragging the one shown in column
  \<^verbatim>\<open>CCW6\<close> to the empty cell of column \<^verbatim>\<open>CCW E 6\<close> on the same row returns a list
  with the relabelled assignment alone: the other assignment is gone, and the consumed
  load falls from 9 to 6. On a row where the \<^verbatim>\<open>courseId\<close> occurs once the consumed
  load is kept (\<open>relabel_keeps_consumedLoad\<close>).
\<close>

theorem same_staff_relabel_drops_same_courseId:
  "dragEnd (gridCell teacherD ccw6 ''CCW6_CCW6'') (gridCell teacherD ccw6 ''CCW6_CCW_E_6'')
     = Some evRelabel
   \<and> assignments teacherD = [assignmentA, mkAssignment ''CCW6_A'' ''CCW6'' ''CCW6'' 3 10]
   \<and> handleDragEnd [teacherD] evRelabel
       = AssignmentUpdate ''D'' [assignmentA\<lparr>courseName := ''CCW E 6''\<rparr>] None
   \<and> consumedLoad teacherD = 9
   \<and> map consumedLoad (relocate [teacherD] evRelabel) = [6]"
proof -
  have out: "handleDragEnd [teacherD] evRelabel
       = AssignmentUpdate ''D'' [assignmentA\<lparr>courseName := ''CCW E 6''\<rparr>] None"
    by (simp add: handleDragEnd_def scenario_teachers event_defs assignmentA_def
          mkAssignment_def Let_def)
  have "consumedLoad teacherD = 9"
    by (simp add: consumedLoad_sum scenario_teachers assignmentA_def mkAssignment_def)
  moreover have "map consumedLoad (relocate [teacherD] evRelabel) = [6]"
    unfolding relocate_def out
    by (simp add: handleAssignmentUpdate_one consumedLoad_sum enhance_fields
          scenario_teachers assignmentA_def mkAssignment_def)
  ultimately show ?thesis
    using scenario_events(5) out by (simp add: scenario_teachers)
qed

end
